theory Spec2Isabelle
  imports Main "HOL-Library.Sublist"
begin

section \<open>The program\<close>

text \<open>
  The package \<^verbatim>\<open>cli\<close> builds command line applications from nested components. The
  repository holds several revisions of \<^verbatim>\<open>cli.go\<close>. This development follows the revision
  in which a component reaches its flag-set through the accessor \<^verbatim>\<open>FlagSet()\<close>, which
  creates it on first use: this is the revision the tests \<^verbatim>\<open>TestComponent_Usage\<close> and
  \<^verbatim>\<open>TestUsageSubComponent\<close> call (\<^verbatim>\<open>c.FlagSet()\<close>, \<^verbatim>\<open>c.SetOutput\<close>). The older
  revisions hold the flag-set by value in a field \<^verbatim>\<open>Flag\<close> and have no flags block in the
  usage text.
\<close>

section \<open>Text\<close>

text \<open>
  A Go string is read as the list of its characters, one \<^typ>\<open>char\<close> per character
  (the code points up to U+00FF), so that \<^term>\<open>length\<close> is the count of characters that
  \<^verbatim>\<open>printf "%-11s"\<close> pads to. The program uses the byte length \<^verbatim>\<open>len(s)\<close> only to ask
  whether a string is empty, and the byte index of the first space only to cut the string
  there: both read the same on characters.
\<close>

text \<open>\<^verbatim>\<open>strings.Index(s, sep)\<close>: the index of the first instance of \<open>sep\<close> in \<open>s\<close>, or
  \<open>-1\<close> when there is none.\<close>

fun strings_Index :: "string \<Rightarrow> string \<Rightarrow> int" where
  "strings_Index [] sep = (if sep = [] then 0 else - 1)"
| "strings_Index (x # xs) sep =
     (if prefix sep (x # xs) then 0
      else (let i = strings_Index xs sep in if i < 0 then - 1 else i + 1))"

text \<open>\<^verbatim>\<open>unicode.IsSpace\<close> on the characters up to U+00FF: tab, line feed, vertical tab,
  form feed, carriage return, space, U+0085 and U+00A0.\<close>

definition unicode_IsSpace :: "char \<Rightarrow> bool" where
  "unicode_IsSpace ch \<longleftrightarrow>
     ch \<in> {CHR 0x09, CHR 0x0A, CHR 0x0B, CHR 0x0C, CHR 0x0D, CHR 0x20, CHR 0x85, CHR 0xA0}"

text \<open>\<^verbatim>\<open>strings.TrimSpace\<close>, the template function \<^verbatim>\<open>trim\<close> that \<^verbatim>\<open>tmpl\<close> registers.\<close>

definition strings_TrimSpace :: "string \<Rightarrow> string" where
  "strings_TrimSpace s = rev (dropWhile unicode_IsSpace (rev (dropWhile unicode_IsSpace s)))"

text \<open>\<^verbatim>\<open>printf "%-11s"\<close>: the text left-justified, filled with spaces on the right up to
  the width; a longer text is left as it is.\<close>

definition printf_left :: "nat \<Rightarrow> string \<Rightarrow> string" where
  "printf_left width s = s @ replicate (width - length s) (CHR 0x20)"

section \<open>The component tree\<close>

text \<open>
  \<^verbatim>\<open>type Component struct\<close> of the revision that owns its flag-set through the accessor
  \<^verbatim>\<open>FlagSet()\<close>. \<open>Run\<close> is a Go function value: the model keeps its identity \<open>'a\<close>, and
  \<open>None\<close> is \<^verbatim>\<open>nil\<close>. \<open>flagSet\<close> is a \<^verbatim>\<open>*flag.FlagSet\<close>: \<open>None\<close> is \<^verbatim>\<open>nil\<close>, \<open>Some a\<close>
  the address of a flag-set in the store. The children are held by value: no child
  pointer is \<^verbatim>\<open>nil\<close> and no child is shared.
\<close>

datatype 'a Component = Component
  (Components: "'a Component list")
  (Run: "'a option")
  (UsageLine: string)
  (Short: string)
  (Long: string)
  (flagSet: "nat option")

definition set_flagSet :: "nat option \<Rightarrow> 'a Component \<Rightarrow> 'a Component" where
  "set_flagSet p c = Component (Components c) (Run c) (UsageLine c) (Short c) (Long c) p"

text \<open>\<^verbatim>\<open>func (c *Component) Name() string\<close>\<close>

definition Name :: "'a Component \<Rightarrow> string" where
  "Name c =
     (let name = UsageLine c;
          i = strings_Index name '' ''
      in if i \<ge> 0 then take (nat i) name else name)"

text \<open>\<^verbatim>\<open>func (c *Component) Runnable() bool\<close>\<close>

definition Runnable :: "'a Component \<Rightarrow> bool" where
  "Runnable c \<longleftrightarrow> None \<noteq> Run c"

section \<open>The flag package\<close>

text \<open>
  The flag-set is Go's \<^verbatim>\<open>flag.FlagSet\<close>, a collaborator from the standard library. Its
  fields and the operations the component calls are written out here from the library's
  documented behaviour, as far as the component depends on them.
\<close>

datatype ErrorHandling = ContinueOnError | ExitOnError | PanicOnError

text \<open>An \<^verbatim>\<open>io.Writer\<close>: the standard error stream, a writer of the client's, or the
  \<^verbatim>\<open>bytes.Buffer\<close> that \<^verbatim>\<open>Usage\<close> allocates for the flag listing.\<close>

datatype writer = Stderr | Writer nat | Buffer

text \<open>The function value a flag-set's \<^verbatim>\<open>Usage\<close> field holds. The package assigns one
  value only: the method value \<^verbatim>\<open>c.Usage\<close> of the component that owns the flag-set.\<close>

datatype usage_func = Component_Usage

text \<open>
  A registered flag. \<open>flag_hint\<close> and \<open>flag_Usage\<close> are the two results of
  \<^verbatim>\<open>flag.UnquoteUsage\<close> (the placeholder for the value, empty for a boolean flag, and the
  help text); \<open>flag_default\<close> is the note \<^verbatim>\<open>(default ...)\<close> with its leading space, empty
  for a zero default; \<open>flag_Set\<close> is \<^verbatim>\<open>Value.Set\<close>: \<open>None\<close> when the text is accepted,
  otherwise the message \<^verbatim>\<open>Parse\<close> reports.
\<close>

record flag_Flag =
  flag_Name :: string
  flag_hint :: string
  flag_Usage :: string
  flag_default :: string
  flag_IsBoolFlag :: bool
  flag_Set :: "string \<Rightarrow> string option"

text \<open>\<^verbatim>\<open>flag.FlagSet\<close>. \<open>fs_formal\<close> lists the registered flags in the order
  \<^verbatim>\<open>VisitAll\<close> visits them; \<open>fs_output = None\<close> is a \<^verbatim>\<open>nil\<close> writer.\<close>

record flag_FlagSet =
  fs_Usage :: "usage_func option"
  fs_name :: string
  fs_parsed :: bool
  fs_formal :: "flag_Flag list"
  fs_args :: "string list"
  fs_errorHandling :: ErrorHandling
  fs_output :: "writer option"

text \<open>The state outside the component: the store of allocated flag-sets (an address is
  an index) and what has been written to each writer so far.\<close>

record world =
  flagsets :: "flag_FlagSet list"
  written :: "writer \<Rightarrow> string"

text \<open>How a call ends: it returns, it panics, or it ends the process
  (\<^verbatim>\<open>os.Exit\<close>).\<close>

datatype 'r completion = Returns 'r | Panics | Exits

text \<open>The \<^verbatim>\<open>error\<close> values \<^verbatim>\<open>Parse\<close> returns; \<^verbatim>\<open>nil\<close> is \<open>None\<close>.\<close>

datatype flag_error = ErrHelp | Errorf string

definition NewFlagSet :: "string \<Rightarrow> ErrorHandling \<Rightarrow> flag_FlagSet" where
  "NewFlagSet name errorHandling =
     \<lparr>fs_Usage = None, fs_name = name, fs_parsed = False, fs_formal = [], fs_args = [],
      fs_errorHandling = errorHandling, fs_output = None\<rparr>"

definition update_flagset :: "nat \<Rightarrow> (flag_FlagSet \<Rightarrow> flag_FlagSet) \<Rightarrow> world \<Rightarrow> world" where
  "update_flagset a g w = w\<lparr>flagsets := (flagsets w)[a := g (flagsets w ! a)]\<rparr>"

definition Fprint :: "writer \<Rightarrow> string \<Rightarrow> world \<Rightarrow> world" where
  "Fprint out s w = w\<lparr>written := (written w)(out := written w out @ s)\<rparr>"

text \<open>\<^verbatim>\<open>func (f *FlagSet) Output() io.Writer\<close>: the standard error stream when no writer
  is set.\<close>

definition Output :: "flag_FlagSet \<Rightarrow> writer" where
  "Output f = (case fs_output f of None \<Rightarrow> Stderr | Some out \<Rightarrow> out)"

text \<open>\<^verbatim>\<open>func (f *FlagSet) SetOutput(output io.Writer)\<close>\<close>

definition flag_SetOutput :: "nat \<Rightarrow> writer option \<Rightarrow> world \<Rightarrow> world" where
  "flag_SetOutput a out w = update_flagset a (\<lambda>f. f\<lparr>fs_output := out\<rparr>) w"

text \<open>
  \<^verbatim>\<open>func (f *FlagSet) PrintDefaults()\<close> writes one entry per registered flag to
  \<^verbatim>\<open>f.Output()\<close>: two spaces, a dash and the name; the placeholder if there is one; a tab
  (for a one-letter flag without placeholder) or a line break, four spaces and a tab; the
  help text with each line break indented the same way; the default note; a line break.
\<close>

definition indent_usage :: "string \<Rightarrow> string" where
  "indent_usage usage =
     concat (map (\<lambda>ch. if ch = CHR 0x0A then [CHR 0x0A] @ ''    '' @ [CHR 0x09] else [ch]) usage)"

text \<open>The byte length \<^verbatim>\<open>len(s)\<close> of a string: in UTF-8 a character below U+0080 is one
  byte, and a character from U+0080 to U+00FF is two.\<close>

fun len_bytes :: "string \<Rightarrow> nat" where
  "len_bytes [] = 0"
| "len_bytes (ch # s) = (if (of_char ch :: nat) < 128 then 1 else 2) + len_bytes s"

definition flag_entry :: "flag_Flag \<Rightarrow> string" where
  "flag_entry fl =
     (let s = ''  -'' @ flag_Name fl;
          s = (if len_bytes (flag_hint fl) > 0 then s @ '' '' @ flag_hint fl else s);
          s = (if len_bytes s \<le> 4 then s @ [CHR 0x09] else s @ [CHR 0x0A] @ ''    '' @ [CHR 0x09]);
          s = s @ indent_usage (flag_Usage fl);
          s = s @ flag_default fl
      in s @ [CHR 0x0A])"

definition PrintDefaults :: "nat \<Rightarrow> world \<Rightarrow> world" where
  "PrintDefaults a w =
     fold (\<lambda>fl w'. Fprint (Output (flagsets w' ! a)) (flag_entry fl) w') (fs_formal (flagsets w ! a)) w"

text \<open>\<^verbatim>\<open>NArg\<close>, \<^verbatim>\<open>Arg(i)\<close> and \<^verbatim>\<open>Args\<close>: the arguments left after the flags.\<close>

definition NArg :: "flag_FlagSet \<Rightarrow> nat" where
  "NArg f = length (fs_args f)"

definition Arg :: "flag_FlagSet \<Rightarrow> int \<Rightarrow> string" where
  "Arg f i = (if i < 0 \<or> i \<ge> int (length (fs_args f)) then [] else fs_args f ! nat i)"

definition Args :: "flag_FlagSet \<Rightarrow> string list" where
  "Args f = fs_args f"

subsection \<open>Parsing\<close>

text \<open>
  One step of \<^verbatim>\<open>Parse\<close> (the library's \<^verbatim>\<open>parseOne\<close>) on the arguments still to read:
  a flag was read (\<open>Seen\<close>), the flags are over (\<open>Stop\<close>), an undefined \<^verbatim>\<open>-h\<close> or
  \<^verbatim>\<open>-help\<close> was met (\<open>HelpAt\<close>), or the argument is refused with a message (\<open>FailAt\<close>).
  Each carries the arguments left.
\<close>

datatype parse_step = Seen "string list" | Stop "string list" | HelpAt "string list"
  | FailAt string "string list"

text \<open>The name before the first \<^verbatim>\<open>=\<close> that is not the first character, and the value
  after it.\<close>

definition split_value :: "string \<Rightarrow> string \<times> string option" where
  "split_value name =
     (case name of
        [] \<Rightarrow> (name, None)
      | ch # rest \<Rightarrow>
          if CHR ''='' \<in> set rest
          then (ch # takeWhile (\<lambda>x. x \<noteq> CHR ''='') rest,
                Some (tl (dropWhile (\<lambda>x. x \<noteq> CHR ''='') rest)))
          else (name, None))"

definition set_flag :: "flag_Flag \<Rightarrow> string \<Rightarrow> string list \<Rightarrow> parse_step" where
  "set_flag fl v rest = (case flag_Set fl v of None \<Rightarrow> Seen rest | Some msg \<Rightarrow> FailAt msg rest)"

definition parseOne :: "flag_Flag list \<Rightarrow> string list \<Rightarrow> parse_step" where
  "parseOne formal args =
     (case args of
        [] \<Rightarrow> Stop []
      | s # rest \<Rightarrow>
          if length s < 2 \<or> s ! 0 \<noteq> CHR ''-'' then Stop args
          else if s ! 1 = CHR ''-'' \<and> length s = 2 then Stop rest
          else
            let numMinuses = (if s ! 1 = CHR ''-'' then 2 else 1);
                name = drop numMinuses s
            in if length name = 0 \<or> name ! 0 = CHR ''-'' \<or> name ! 0 = CHR ''=''
               then FailAt (''bad flag syntax: '' @ s) args
               else
                 let (name, val) = split_value name
                 in case find (\<lambda>fl. flag_Name fl = name) formal of
                      None \<Rightarrow>
                        if name = ''help'' \<or> name = ''h'' then HelpAt rest
                        else FailAt (''flag provided but not defined: -'' @ name) rest
                    | Some fl \<Rightarrow>
                        if flag_IsBoolFlag fl
                        then (case val of
                                Some v \<Rightarrow> set_flag fl v rest
                              | None \<Rightarrow> set_flag fl ''true'' rest)
                        else (case val of
                                Some v \<Rightarrow> set_flag fl v rest
                              | None \<Rightarrow>
                                  (case rest of
                                     [] \<Rightarrow> FailAt (''flag needs an argument: -'' @ name) rest
                                   | v # rest' \<Rightarrow> set_flag fl v rest')))"

text \<open>The loop of \<^verbatim>\<open>Parse\<close>: steps until one does not read a flag.\<close>

function parse_flags :: "flag_Flag list \<Rightarrow> string list \<Rightarrow> parse_step" where
  "parse_flags formal args =
     (case parseOne formal args of
        Seen rest \<Rightarrow> parse_flags formal rest
      | step \<Rightarrow> step)"
  by pat_completeness auto

termination
  by (relation "measure (\<lambda>(formal, args). length args)")
    (auto simp: parseOne_def set_flag_def Let_def
      split: list.splits if_splits option.splits prod.splits)

declare parse_flags.simps [simp del]

section \<open>The component's operations\<close>

text \<open>
  \<^verbatim>\<open>func (c *Component) FlagSet() *flag.FlagSet\<close>. It returns the address, the
  component (whose field \<open>flagSet\<close> the first call sets) and the store (to which the first
  call adds the new flag-set).
\<close>

definition FlagSet :: "'a Component \<Rightarrow> world \<Rightarrow> nat \<times> 'a Component \<times> world" where
  "FlagSet c w =
     (case flagSet c of
        None \<Rightarrow>
          let a = length (flagsets w);
              f = NewFlagSet (Name c) ExitOnError;
              f = f\<lparr>fs_Usage := Some Component_Usage\<rparr>
          in (a, set_flagSet (Some a) c, w\<lparr>flagsets := flagsets w @ [f]\<rparr>)
      | Some a \<Rightarrow> (a, c, w))"

text \<open>\<^verbatim>\<open>func (c *Component) SetOutput(output io.Writer)\<close>\<close>

definition SetOutput :: "'a Component \<Rightarrow> writer option \<Rightarrow> world \<Rightarrow> 'a Component \<times> world" where
  "SetOutput c out w = (case FlagSet c w of (a, c', w') \<Rightarrow> (c', flag_SetOutput a out w'))"

text \<open>
  \<^verbatim>\<open>usageTemplate\<close>, executed on the data \<^verbatim>\<open>{"component": c, "flags": flags}\<close>:

  \<^verbatim>\<open>{{if .component.Runnable}}Usage: {{.component.UsageLine}}{{end}}\<close>

  \<^verbatim>\<open>{{- if ne (len .component.Long) 0}}{{.component.Long | trim}}{{end}}\<close>

  \<^verbatim>\<open>{{- if ne (len .component.Components) 0}}\<close>

  \<^verbatim>\<open>The components are:\<close>

  \<^verbatim>\<open>{{range .component.Components}}{{if .Runnable}}\<close>

  \<^verbatim>\<open>  {{.Name | printf "%-11s"}} {{.Short}}{{end}}{{end}}{{end}}\<close>

  \<^verbatim>\<open>{{if ne (len .flags) 0}}\<close>

  \<^verbatim>\<open>The flags are:\<close>

  \<^verbatim>\<open>{{.flags}}{{end}}\<close>

  An action that opens with \<^verbatim>\<open>{{-\<close> trims all the white space, line breaks included,
  from the text before it (package \<^verbatim>\<open>text/template\<close>). So the line breaks that end the
  first and the second line of the template are not part of the output, while every other
  line break of the template is: the one after \<^verbatim>\<open>{{- if ne (len .component.Components) 0}}\<close>,
  the one after the header, the one before each entry, the one at the end of the entries'
  line, and the two around \<^verbatim>\<open>The flags are:\<close>. \<open>range_Components\<close> is the \<^verbatim>\<open>{{range}}\<close>
  over the children.
\<close>

fun range_Components :: "'a Component list \<Rightarrow> string" where
  "range_Components [] = []"
| "range_Components (ch # chs) =
     (if Runnable ch
      then [CHR 0x0A] @ ''  '' @ printf_left 11 (Name ch) @ '' '' @ Short ch
      else [])
     @ range_Components chs"

definition usageTemplate :: "'a Component \<times> string \<Rightarrow> string" where
  "usageTemplate data =
     (case data of (component, flags) \<Rightarrow>
        (if Runnable component then ''Usage: '' @ UsageLine component else [])
        @ (if length (Long component) \<noteq> 0 then strings_TrimSpace (Long component) else [])
        @ (if length (Components component) \<noteq> 0
           then [CHR 0x0A] @ ''The components are:'' @ [CHR 0x0A]
                @ range_Components (Components component)
           else [])
        @ [CHR 0x0A]
        @ (if length flags \<noteq> 0
           then [CHR 0x0A] @ ''The flags are:'' @ [CHR 0x0A] @ flags
           else []))"

text \<open>\<^verbatim>\<open>func tmpl(w io.Writer, text string, data interface{})\<close>: the template is a
  function from its data to the text it renders.\<close>

definition tmpl :: "writer \<Rightarrow> ('d \<Rightarrow> string) \<Rightarrow> 'd \<Rightarrow> world \<Rightarrow> world" where
  "tmpl out template data w = Fprint out (template data) w"

text \<open>
  \<^verbatim>\<open>func (c *Component) Usage()\<close>. \<^verbatim>\<open>c.flagSet.Output()\<close> reads a field of the flag-set,
  so it panics on a \<^verbatim>\<open>nil\<close> pointer. \<open>Buffer\<close> is the fresh \<^verbatim>\<open>bytes.Buffer\<close>.
\<close>

definition Usage :: "'a Component \<Rightarrow> world \<Rightarrow> unit completion \<times> world" where
  "Usage c w =
     (case flagSet c of
        None \<Rightarrow> (Panics, w)
      | Some a \<Rightarrow>
          let output = Output (flagsets w ! a);
              w = w\<lparr>written := (written w)(Buffer := [])\<rparr>;
              w = flag_SetOutput a (Some Buffer) w;
              w = PrintDefaults a w;
              w = flag_SetOutput a (Some output) w
          in (Returns (), tmpl output usageTemplate (c, written w Buffer) w))"

text \<open>
  The flag-set's \<^verbatim>\<open>Usage\<close> field called as a function, as in
  \<^verbatim>\<open>component.FlagSet().Usage()\<close>: calling \<^verbatim>\<open>nil\<close> panics, and the method value
  \<^verbatim>\<open>c.Usage\<close> runs \<^verbatim>\<open>Usage\<close> on the component.
\<close>

definition call_Usage :: "'a Component \<Rightarrow> nat \<Rightarrow> world \<Rightarrow> unit completion \<times> world" where
  "call_Usage c a w =
     (case fs_Usage (flagsets w ! a) of
        None \<Rightarrow> (Panics, w)
      | Some Component_Usage \<Rightarrow> Usage c w)"

text \<open>The library's \<^verbatim>\<open>defaultUsage\<close> and \<^verbatim>\<open>usage\<close>: the flag-set's own heading and
  listing when the field \<^verbatim>\<open>Usage\<close> is \<^verbatim>\<open>nil\<close>, the field's function otherwise.\<close>

definition defaultUsage :: "nat \<Rightarrow> world \<Rightarrow> world" where
  "defaultUsage a w =
     (let f = flagsets w ! a;
          w = (if fs_name f = [] then Fprint (Output f) (''Usage:'' @ [CHR 0x0A]) w
               else Fprint (Output f) (''Usage of '' @ fs_name f @ '':'' @ [CHR 0x0A]) w)
      in PrintDefaults a w)"

definition flag_usage :: "'a Component \<Rightarrow> nat \<Rightarrow> world \<Rightarrow> unit completion \<times> world" where
  "flag_usage c a w =
     (if fs_Usage (flagsets w ! a) = None then (Returns (), defaultUsage a w)
      else call_Usage c a w)"

text \<open>
  \<^verbatim>\<open>func (f *FlagSet) Parse(arguments []string) error\<close> on the flag-set at \<open>a\<close>, owned by
  \<open>c\<close>. A refused argument is reported on the output and followed by the usage
  (\<^verbatim>\<open>failf\<close>); a help request prints the usage. What happens next is the flag-set's error
  handling: the error is returned, the process exits, or \<^verbatim>\<open>Parse\<close> panics.
\<close>

definition handle_error ::
  "ErrorHandling \<Rightarrow> flag_error \<Rightarrow> unit completion \<times> world \<Rightarrow> flag_error option completion \<times> world"
where
  "handle_error errorHandling err r =
     (case r of
        (Returns u, w) \<Rightarrow>
          (case errorHandling of
             ContinueOnError \<Rightarrow> (Returns (Some err), w)
           | ExitOnError \<Rightarrow> (Exits, w)
           | PanicOnError \<Rightarrow> (Panics, w))
      | (Panics, w) \<Rightarrow> (Panics, w)
      | (Exits, w) \<Rightarrow> (Exits, w))"

definition Parse ::
  "'a Component \<Rightarrow> nat \<Rightarrow> string list \<Rightarrow> world \<Rightarrow> flag_error option completion \<times> world"
where
  "Parse c a arguments w =
     (let w = update_flagset a (\<lambda>f. f\<lparr>fs_parsed := True, fs_args := arguments\<rparr>) w;
          f = flagsets w ! a
      in case parse_flags (fs_formal f) arguments of
           Seen rest \<Rightarrow> (Returns None, update_flagset a (\<lambda>f. f\<lparr>fs_args := rest\<rparr>) w)
         | Stop rest \<Rightarrow> (Returns None, update_flagset a (\<lambda>f. f\<lparr>fs_args := rest\<rparr>) w)
         | HelpAt rest \<Rightarrow>
             handle_error (fs_errorHandling f) ErrHelp
               (flag_usage c a (update_flagset a (\<lambda>f. f\<lparr>fs_args := rest\<rparr>) w))
         | FailAt msg rest \<Rightarrow>
             handle_error (fs_errorHandling f) (Errorf msg)
               (flag_usage c a
                  (Fprint (Output f) (msg @ [CHR 0x0A])
                     (update_flagset a (\<lambda>f. f\<lparr>fs_args := rest\<rparr>) w))))"

text \<open>
  What \<^verbatim>\<open>Passthrough\<close> has done when it ends: it returned without running a child, it
  ran the action of a child (with the context, the child and the arguments it passed) and
  returned, it panicked, or the process exited inside \<^verbatim>\<open>Parse\<close>.
\<close>

datatype ('a, 'x) outcome =
    Returned
  | Ran 'a 'x "'a Component" "string list"
  | Panicked
  | Exited

text \<open>The \<^verbatim>\<open>for _, comp := range component.Components\<close> loop of \<^verbatim>\<open>Passthrough\<close>:
  the call it makes, if it makes one. \<open>rest\<close> is \<^verbatim>\<open>component.FlagSet().Args()[1:]\<close>; the
  loop is reached with at least one argument left, so the slice is in range. A runnable
  child has a \<open>Run\<close> other than \<^verbatim>\<open>nil\<close>, which is the function called.\<close>

fun range_dispatch ::
  "'x \<Rightarrow> string \<Rightarrow> string list \<Rightarrow> 'a Component list \<Rightarrow> ('a, 'x) outcome option"
where
  "range_dispatch ctx name rest [] = None"
| "range_dispatch ctx name rest (child # children) =
     (if name = Name child
      then (if Runnable child
            then Some (Ran (the (Run child)) ctx child rest)
            else range_dispatch ctx name rest children)
      else range_dispatch ctx name rest children)"

text \<open>\<^verbatim>\<open>func Passthrough(ctx context.Context, component *Component, args []string)\<close>.
  Every \<^verbatim>\<open>component.FlagSet()\<close> of the source is a call of \<open>FlagSet\<close> here.\<close>

definition finish :: "unit completion \<times> world \<Rightarrow> 'a Component \<Rightarrow> ('a, 'x) outcome \<times> 'a Component \<times> world" where
  "finish r c =
     (case r of
        (Returns u, w) \<Rightarrow> (Returned, c, w)
      | (Panics, w) \<Rightarrow> (Panicked, c, w)
      | (Exits, w) \<Rightarrow> (Exited, c, w))"

definition Passthrough ::
  "'x \<Rightarrow> 'a Component \<Rightarrow> string list \<Rightarrow> world \<Rightarrow> ('a, 'x) outcome \<times> 'a Component \<times> world"
where
  "Passthrough ctx component args w =
     (let (a, component, w) = FlagSet component w
      in case Parse component a args w of
           (Panics, w) \<Rightarrow> (Panicked, component, w)
         | (Exits, w) \<Rightarrow> (Exited, component, w)
         | (Returns err, w) \<Rightarrow>
             if Some ErrHelp = err then (Returned, component, w)
             else
               let (a, component, w) = FlagSet component w
               in if NArg (flagsets w ! a) < 1
                  then (let (a, component, w) = FlagSet component w
                        in finish (call_Usage component a w) component)
                  else
                    let (a, component, w) = FlagSet component w;
                        name = Arg (flagsets w ! a) 0;
                        (a, component, w) = FlagSet component w
                    in (case range_dispatch ctx name (drop 1 (Args (flagsets w ! a)))
                               (Components component) of
                          Some call \<Rightarrow> (call, component, w)
                        | None \<Rightarrow>
                            (let (a, component, w) = FlagSet component w
                             in finish (call_Usage component a w) component)))"

text \<open>
  The state in which the package leaves a component: its flag-set, if it has one, is in
  the store, the field \<^verbatim>\<open>Usage\<close> of the flag-set holds the component's method, and the
  flag-set does not write to the buffer of \<^verbatim>\<open>Usage\<close> (which is local to one call).
\<close>

definition wired :: "'a Component \<Rightarrow> world \<Rightarrow> bool" where
  "wired c w \<longleftrightarrow>
     (case flagSet c of
        None \<Rightarrow> True
      | Some a \<Rightarrow>
          a < length (flagsets w) \<and> fs_Usage (flagsets w ! a) = Some Component_Usage
          \<and> Output (flagsets w ! a) \<noteq> Buffer)"

text \<open>The flag listing: the text \<^verbatim>\<open>PrintDefaults\<close> writes for a flag-set.\<close>

definition defaults_text :: "flag_FlagSet \<Rightarrow> string" where
  "defaults_text f = concat (map flag_entry (fs_formal f))"

text \<open>The state after \<^verbatim>\<open>Usage\<close> has run on a component whose flag-set is at \<open>a\<close>: the
  usage text is added to the flag-set's output, the buffer holds the listing, and the
  output is the one that was in use.\<close>

definition printed :: "'a Component \<Rightarrow> nat \<Rightarrow> world \<Rightarrow> world" where
  "printed c a w =
     \<lparr>flagsets = (flagsets w)[a := (flagsets w ! a)\<lparr>fs_output := Some (Output (flagsets w ! a))\<rparr>],
      written = (written w)
        (Buffer := defaults_text (flagsets w ! a),
         Output (flagsets w ! a) :=
           written w (Output (flagsets w ! a)) @ usageTemplate (c, defaults_text (flagsets w ! a)))\<rparr>"

text \<open>What \<^verbatim>\<open>Parse\<close> leaves as it was in the flag-set at \<open>a\<close>.\<close>

definition keeps :: "nat \<Rightarrow> world \<Rightarrow> world \<Rightarrow> bool" where
  "keeps a w w' \<longleftrightarrow>
     a < length (flagsets w') \<and> fs_Usage (flagsets w' ! a) = fs_Usage (flagsets w ! a)
     \<and> Output (flagsets w' ! a) = Output (flagsets w ! a)
     \<and> fs_formal (flagsets w' ! a) = fs_formal (flagsets w ! a)
     \<and> fs_errorHandling (flagsets w' ! a) = fs_errorHandling (flagsets w ! a)"

section \<open>The component of the package's tests\<close>

text \<open>
  The component of the test case \<^verbatim>\<open>Subcomponent\<close> of \<^verbatim>\<open>TestComponent_Usage\<close>, after
  \<^verbatim>\<open>c.SetOutput(&buf)\<close> and \<^verbatim>\<open>c.FlagSet().String("i", "", "input of the test component")\<close>:
  \<open>Writer 0\<close> is \<^verbatim>\<open>buf\<close>, and the actions are told apart by a number. The flag-set is
  taken with each error handling; \<^verbatim>\<open>FlagSet()\<close> creates it with \<open>ExitOnError\<close>.
\<close>

definition example_flag :: flag_Flag where
  "example_flag =
     \<lparr>flag_Name = ''i'', flag_hint = ''string'', flag_Usage = ''input of the test component'',
      flag_default = [], flag_IsBoolFlag = False, flag_Set = (\<lambda>v. None)\<rparr>"

definition example_child1 :: "nat Component" where
  "example_child1 = Component [] (Some 1) ''subcomponent1'' ''description of subcomponent 1'' [] None"

definition example_child2 :: "nat Component" where
  "example_child2 = Component [] (Some 2) ''subcomponent2'' ''description of subcomponent 2'' [] None"

definition example_component :: "nat Component" where
  "example_component =
     Component [example_child1, example_child2] (Some 0) ''test [-i input]'' []
       ''Long usage line for the application designed to test formatting.'' (Some 0)"

definition example_flagset :: "ErrorHandling \<Rightarrow> flag_FlagSet" where
  "example_flagset errorHandling =
     (NewFlagSet ''test'' errorHandling)
       \<lparr>fs_Usage := Some Component_Usage, fs_formal := [example_flag],
        fs_output := Some (Writer 0)\<rparr>"

definition example_world :: "ErrorHandling \<Rightarrow> world" where
  "example_world errorHandling = \<lparr>flagsets = [example_flagset errorHandling], written = (\<lambda>out. [])\<rparr>"

text \<open>The listing of the flag \<^verbatim>\<open>-i\<close>, and the text \<^verbatim>\<open>Usage\<close> writes for the component.\<close>

definition example_listing :: string where
  "example_listing =
     ''  -i string\<newline>    '' @ [CHR 0x09] @ ''input of the test component\<newline>''"

definition example_usage_text :: string where
  "example_usage_text =
     ''Usage: test [-i input]Long usage line for the application designed to test formatting.\<newline>The components are:\<newline>\<newline>  subcomponent1 description of subcomponent 1\<newline>  subcomponent2 description of subcomponent 2\<newline>\<newline>The flags are:\<newline>''
     @ example_listing"

text \<open>The lines of a text: the pieces between its line breaks.\<close>

fun lines_of :: "string \<Rightarrow> string list" where
  "lines_of [] = [[]]"
| "lines_of (ch # s) =
     (if ch = CHR 0x0A then [] # lines_of s
      else (case lines_of s of l # ls \<Rightarrow> (ch # l) # ls | [] \<Rightarrow> [[ch]]))"

text \<open>The text the test case \<^verbatim>\<open>Subcomponent\<close> expects (its \<^verbatim>\<open>want\<close>).\<close>

definition expected_usage_text :: string where
  "expected_usage_text =
     ''Usage: test [-i input]\<newline>Long usage line for the application designed to test formatting.\<newline>\<newline>The components are:\<newline>  subcomponent1 description of subcomponent 1\<newline>  subcomponent2 description of subcomponent 2\<newline>\<newline>The flags are:\<newline>''
     @ example_listing"

text \<open>The component of the test cases \<^verbatim>\<open>Without Flags\<close> and \<^verbatim>\<open>With Flags\<close>.\<close>

definition example_runnable :: "nat Component" where
  "example_runnable = Component [] (Some 0) ''test [-i input]'' [] [] (Some 0)"

text \<open>
  A component that is not runnable, with a runnable child whose name is shorter than the
  column, a child that is not runnable and a runnable child whose name is longer than the
  column. Its flag-set is as \<^verbatim>\<open>FlagSet()\<close> creates it: no flag, no writer set.
\<close>

definition example_tool :: "nat Component" where
  "example_tool =
     Component
       [Component [] (Some 3) ''run [args]'' ''runs it'' [] None,
        Component [] None ''doc'' ''is not runnable'' [] None,
        Component [] (Some 4) ''longer-than-eleven'' ''is not cut'' [] None]
       None ''tool'' [] [] (Some 0)"

definition example_tool_world :: world where
  "example_tool_world =
     \<lparr>flagsets = [(NewFlagSet ''tool'' ExitOnError)\<lparr>fs_Usage := Some Component_Usage\<rparr>],
      written = (\<lambda>out. [])\<rparr>"

section \<open>Name\<close>

lemma strings_Index_space:
  "strings_Index s '' '' = (if CHR 0x20 \<in> set s then int (length (takeWhile (\<lambda>ch. ch \<noteq> CHR 0x20) s)) else - 1)"
  by (induction s) (auto simp: Let_def)

lemma Name_takeWhile: "Name c = takeWhile (\<lambda>ch. ch \<noteq> CHR 0x20) (UsageLine c)"
proof (cases "CHR 0x20 \<in> set (UsageLine c)")
  case True
  have "take (length (takeWhile (\<lambda>ch. ch \<noteq> CHR 0x20) (UsageLine c))) (UsageLine c)
        = takeWhile (\<lambda>ch. ch \<noteq> CHR 0x20) (UsageLine c)"
    by (rule takeWhile_eq_take [symmetric])
  with True show ?thesis
    by (simp add: Name_def Let_def strings_Index_space)
next
  case False
  then have all: "takeWhile (\<lambda>ch. ch \<noteq> CHR 0x20) (UsageLine c) = UsageLine c"
    by (auto simp: takeWhile_eq_all_conv)
  from False have "Name c = UsageLine c"
    by (simp add: Name_def Let_def strings_Index_space)
  with all show ?thesis
    by (simp only:)
qed

text \<open>
  C7. \<open>Name\<close> is the part of \<open>UsageLine\<close> before the first space when there is a space,
  the whole \<open>UsageLine\<close> when there is none, and empty when \<open>UsageLine\<close> is empty. It
  reads nothing but \<open>UsageLine\<close>: two components with the same usage line have the same
  name, whatever their other fields and whatever the state of the flag-sets and writers.
\<close>

theorem Name_first_word:
  "(CHR 0x20 \<in> set (UsageLine c) \<longrightarrow>
      (\<exists>rest. UsageLine c = Name c @ '' '' @ rest) \<and> CHR 0x20 \<notin> set (Name c))
   \<and> (CHR 0x20 \<notin> set (UsageLine c) \<longrightarrow> Name c = UsageLine c)
   \<and> (UsageLine c = [] \<longrightarrow> Name c = [])
   \<and> (UsageLine c = UsageLine c' \<longrightarrow> Name c = Name c')"
proof -
  let ?P = "\<lambda>ch. ch \<noteq> CHR 0x20"
  have split: "UsageLine c = Name c @ dropWhile ?P (UsageLine c)"
    by (simp add: Name_takeWhile)
  have no_space: "CHR 0x20 \<notin> set (Name c)"
    unfolding Name_takeWhile by (auto dest: set_takeWhileD)
  have first: "\<exists>rest. UsageLine c = Name c @ '' '' @ rest" if "CHR 0x20 \<in> set (UsageLine c)"
  proof -
    from that have "dropWhile ?P (UsageLine c) \<noteq> []"
      by (auto simp: dropWhile_eq_Nil_conv)
    then obtain x rest where d: "dropWhile ?P (UsageLine c) = x # rest"
      by (cases "dropWhile ?P (UsageLine c)") auto
    then have "\<not> ?P x"
      using hd_dropWhile [of ?P "UsageLine c"] by simp
    then have "x = CHR 0x20" by simp
    with d split have "UsageLine c = Name c @ '' '' @ rest" by simp
    then show ?thesis ..
  qed
  have whole: "Name c = UsageLine c" if "CHR 0x20 \<notin> set (UsageLine c)"
    unfolding Name_takeWhile using that by (auto simp: takeWhile_eq_all_conv)
  have empty: "Name c = []" if "UsageLine c = []"
    using that by (simp add: Name_takeWhile)
  have same: "Name c = Name c'" if "UsageLine c = UsageLine c'"
    using that by (simp add: Name_takeWhile)
  from first no_space whole empty same show ?thesis by blast
qed

theorem Name_first_word_witness:
  "CHR 0x20 \<in> set ''test [-i input]''
   \<and> Name (Component [] None ''test [-i input]'' [] [] None :: nat Component) = ''test''
   \<and> CHR 0x20 \<notin> set ''subcomponent1''
   \<and> Name (Component [] None ''subcomponent1'' [] [] None :: nat Component) = ''subcomponent1''
   \<and> Name (Component [] None [] [] [] None :: nat Component) = []
   \<and> Name (Component [] (Some 1) ''test [-i input]'' ''s'' ''l'' (Some 0) :: nat Component)
       = Name (Component [] None ''test [-i input]'' [] [] None :: nat Component)"
proof -
  let ?c1 = "Component [] None ''test [-i input]'' [] [] None :: nat Component"
  let ?c2 = "Component [] None ''subcomponent1'' [] [] None :: nat Component"
  let ?c3 = "Component [] None [] [] [] None :: nat Component"
  let ?c4 = "Component [] (Some 1) ''test [-i input]'' ''s'' ''l'' (Some 0) :: nat Component"
  have n1: "Name ?c1 = ''test''"
    by (simp add: Name_def)
  show ?thesis
    using Name_first_word [of ?c1 ?c1] Name_first_word [of ?c2 ?c2]
      Name_first_word [of ?c3 ?c3] Name_first_word [of ?c4 ?c1] n1
    by simp
qed

section \<open>The flag-set of a component\<close>

lemma flagSet_set_flagSet [simp]: "flagSet (set_flagSet p c) = p"
  and Components_set_flagSet [simp]: "Components (set_flagSet p c) = Components c"
  and Run_set_flagSet [simp]: "Run (set_flagSet p c) = Run c"
  and UsageLine_set_flagSet [simp]: "UsageLine (set_flagSet p c) = UsageLine c"
  and Short_set_flagSet [simp]: "Short (set_flagSet p c) = Short c"
  and Long_set_flagSet [simp]: "Long (set_flagSet p c) = Long c"
  by (simp_all add: set_flagSet_def)

lemma Name_set_flagSet [simp]: "Name (set_flagSet p c) = Name c"
  by (simp add: Name_def)

lemma Runnable_set_flagSet [simp]: "Runnable (set_flagSet p c) = Runnable c"
  by (simp add: Runnable_def)

lemma FlagSet_Some: "flagSet c = Some a \<Longrightarrow> FlagSet c w = (a, c, w)"
  by (simp add: FlagSet_def)

lemma FlagSet_None:
  "flagSet c = None \<Longrightarrow>
   FlagSet c w =
     (length (flagsets w), set_flagSet (Some (length (flagsets w))) c,
      w\<lparr>flagsets := flagsets w @ [(NewFlagSet (Name c) ExitOnError)\<lparr>fs_Usage := Some Component_Usage\<rparr>]\<rparr>)"
  by (simp add: FlagSet_def Let_def)

lemma FlagSet_result:
  assumes "FlagSet c w = (a, c1, w1)"
  shows "flagSet c1 = Some a" and "Components c1 = Components c" and "Run c1 = Run c"
    and "UsageLine c1 = UsageLine c" and "Short c1 = Short c" and "Long c1 = Long c"
    and "written w1 = written w"
  using assms by (auto simp: FlagSet_def Let_def split: option.splits)

lemma FlagSet_again:
  assumes "FlagSet c w = (a, c1, w1)"
  shows "FlagSet c1 w' = (a, c1, w')"
  by (rule FlagSet_Some [OF FlagSet_result(1) [OF assms]])

lemma FlagSet_wired:
  assumes "FlagSet c w = (a, c1, w1)" and "wired c w"
  shows "a < length (flagsets w1)" and "fs_Usage (flagsets w1 ! a) = Some Component_Usage"
    and "Output (flagsets w1 ! a) \<noteq> Buffer"
  using assms
  by (auto simp: FlagSet_def Let_def wired_def NewFlagSet_def Output_def nth_append
      split: option.splits)

text \<open>The flag-set \<^verbatim>\<open>FlagSet()\<close> creates exits on error.\<close>

lemma FlagSet_ExitOnError:
  assumes "flagSet c = None" and "FlagSet c w = (a, c1, w1)"
  shows "fs_errorHandling (flagsets w1 ! a) = ExitOnError"
  using assms by (auto simp: FlagSet_None NewFlagSet_def)

section \<open>The usage text\<close>

lemma Fprint_Fprint: "Fprint out t (Fprint out s w) = Fprint out (s @ t) w"
  by (simp add: Fprint_def)

lemma Fprint_Nil: "Fprint out [] w = w"
  by (simp add: Fprint_def)

lemma flagsets_Fprint [simp]: "flagsets (Fprint out s w) = flagsets w"
  by (simp add: Fprint_def)

lemma fold_Fprint:
  "fold (\<lambda>fl w'. Fprint (Output (flagsets w' ! a)) (flag_entry fl) w') fls w
   = Fprint (Output (flagsets w ! a)) (concat (map flag_entry fls)) w"
proof (induction fls arbitrary: w)
  case Nil
  show ?case by (simp add: Fprint_Nil)
next
  case (Cons fl fls)
  show ?case by (simp add: Cons.IH Fprint_Fprint)
qed

lemma PrintDefaults_eq:
  "PrintDefaults a w
   = Fprint (Output (flagsets w ! a)) (concat (map flag_entry (fs_formal (flagsets w ! a)))) w"
  by (simp add: PrintDefaults_def fold_Fprint)

lemma flag_entry_not_Nil: "flag_entry fl \<noteq> []"
  by (simp add: flag_entry_def Let_def)

lemma defaults_text_Nil: "defaults_text f = [] \<longleftrightarrow> fs_formal f = []"
  by (cases "fs_formal f") (simp_all add: defaults_text_def flag_entry_not_Nil)

lemma usageTemplate_cong:
  assumes "Components c1 = Components c" and "Run c1 = Run c" and "UsageLine c1 = UsageLine c"
    and "Long c1 = Long c"
  shows "usageTemplate (c1, flags) = usageTemplate (c, flags)"
  using assms by (simp add: usageTemplate_def Runnable_def)

lemma usageTemplate_flags:
  "usageTemplate (c, flags) =
     usageTemplate (c, []) @ (if flags = [] then [] else [CHR 0x0A] @ ''The flags are:'' @ [CHR 0x0A] @ flags)"
  by (simp add: usageTemplate_def)

lemma range_Components_filter:
  "range_Components children =
     concat (map (\<lambda>child. [CHR 0x0A] @ ''  '' @ printf_left 11 (Name child) @ '' '' @ Short child)
       (filter Runnable children))"
  by (induction children) simp_all

lemma range_Components_entries:
  "range_Components children =
     concat (map (\<lambda>child. [CHR 0x0A] @ ''  '' @ Name child
                     @ replicate (11 - length (Name child)) (CHR 0x20) @ '' '' @ Short child)
       (filter Runnable children))"
  by (induction children) (simp_all add: printf_left_def)

lemma Usage_Some:
  assumes "flagSet c = Some a" and "a < length (flagsets w)"
    and "Output (flagsets w ! a) \<noteq> Buffer"
  shows "Usage c w =
    (Returns (),
     \<lparr>flagsets = (flagsets w)[a := (flagsets w ! a)\<lparr>fs_output := Some (Output (flagsets w ! a))\<rparr>],
      written = (written w)
        (Buffer := concat (map flag_entry (fs_formal (flagsets w ! a))),
         Output (flagsets w ! a) :=
           written w (Output (flagsets w ! a))
           @ usageTemplate (c, concat (map flag_entry (fs_formal (flagsets w ! a)))))\<rparr>)"
  using assms
  by (simp add: Usage_def Let_def flag_SetOutput_def update_flagset_def PrintDefaults_eq
      tmpl_def Fprint_def Output_def fun_upd_twist)

lemma Usage_printed:
  assumes "flagSet c = Some a" and "a < length (flagsets w)"
    and "Output (flagsets w ! a) \<noteq> Buffer"
  shows "Usage c w = (Returns (), printed c a w)"
  using assms by (simp add: Usage_Some printed_def defaults_text_def)

lemma call_Usage_printed:
  assumes "flagSet c = Some a" and "a < length (flagsets w)"
    and "fs_Usage (flagsets w ! a) = Some Component_Usage"
    and "Output (flagsets w ! a) \<noteq> Buffer"
  shows "call_Usage c a w = (Returns (), printed c a w)"
  using assms by (simp add: call_Usage_def Usage_printed)

lemma written_printed:
  assumes "Output (flagsets w ! a) \<noteq> Buffer"
  shows "written (printed c a w) (Output (flagsets w ! a))
         = written w (Output (flagsets w ! a)) @ usageTemplate (c, defaults_text (flagsets w ! a))"
    and "out \<noteq> Output (flagsets w ! a) \<Longrightarrow> out \<noteq> Buffer \<Longrightarrow> written (printed c a w) out = written w out"
  using assms by (simp_all add: printed_def)

section \<open>Parsing\<close>

lemma parse_flags_not_Seen: "parse_flags formal args \<noteq> Seen rest"
proof (induction formal args rule: parse_flags.induct)
  case (1 formal args)
  then show ?case
    by (cases "parseOne formal args") (simp_all add: parse_flags.simps [of formal args])
qed

lemma Parse_cases:
  assumes "flagSet c = Some a" and "a < length (flagsets w)"
    and "fs_Usage (flagsets w ! a) = Some Component_Usage"
    and "Output (flagsets w ! a) \<noteq> Buffer"
  shows "Parse c a args w =
    (case parse_flags (fs_formal (flagsets w ! a)) args of
       Seen rest \<Rightarrow>
         (Returns None, update_flagset a (\<lambda>f. f\<lparr>fs_parsed := True, fs_args := rest\<rparr>) w)
     | Stop rest \<Rightarrow>
         (Returns None, update_flagset a (\<lambda>f. f\<lparr>fs_parsed := True, fs_args := rest\<rparr>) w)
     | HelpAt rest \<Rightarrow>
         handle_error (fs_errorHandling (flagsets w ! a)) ErrHelp
           (Returns (),
            printed c a (update_flagset a (\<lambda>f. f\<lparr>fs_parsed := True, fs_args := rest\<rparr>) w))
     | FailAt msg rest \<Rightarrow>
         handle_error (fs_errorHandling (flagsets w ! a)) (Errorf msg)
           (Returns (),
            printed c a
              (Fprint (Output (flagsets w ! a)) (msg @ [CHR 0x0A])
                 (update_flagset a (\<lambda>f. f\<lparr>fs_parsed := True, fs_args := rest\<rparr>) w))))"
  using assms
  by (simp add: Parse_def Let_def update_flagset_def flag_usage_def call_Usage_printed Output_def
      split: parse_step.split)

lemma keeps_trans: "keeps a w w' \<Longrightarrow> keeps a w' w'' \<Longrightarrow> keeps a w w''"
  by (simp add: keeps_def)

lemma keeps_args:
  "a < length (flagsets w) \<Longrightarrow>
   keeps a w (update_flagset a (\<lambda>f. f\<lparr>fs_parsed := p, fs_args := rest\<rparr>) w)"
  by (simp add: keeps_def update_flagset_def Output_def)

lemma keeps_Fprint: "a < length (flagsets w) \<Longrightarrow> keeps a w (Fprint out s w)"
  by (simp add: keeps_def)

lemma keeps_printed: "a < length (flagsets w) \<Longrightarrow> keeps a w (printed c a w)"
  by (simp add: keeps_def printed_def Output_def)

lemma snd_handle_error: "snd (handle_error eh e (Returns u, w)) = w"
  by (cases eh) (simp_all add: handle_error_def)

lemma handle_error_Returns:
  "handle_error eh e (Returns u, w) = (Returns r, w') \<Longrightarrow> r = Some e \<and> w' = w"
  by (cases eh) (simp_all add: handle_error_def)

lemma Parse_keeps:
  assumes "flagSet c = Some a" and "a < length (flagsets w)"
    and "fs_Usage (flagsets w ! a) = Some Component_Usage"
    and "Output (flagsets w ! a) \<noteq> Buffer"
  shows "keeps a w (snd (Parse c a args w))"
proof -
  let ?W = "\<lambda>rest. update_flagset a (\<lambda>f. f\<lparr>fs_parsed := True, fs_args := rest\<rparr>) w"
  have W: "keeps a w (?W rest)" for rest
    using assms(2) by (rule keeps_args)
  then have len: "a < length (flagsets (?W rest))" for rest
    by (simp add: keeps_def)
  show ?thesis
  proof (cases "parse_flags (fs_formal (flagsets w ! a)) args")
    case (Seen rest)
    then show ?thesis
      using W [of rest] by (simp add: Parse_cases [OF assms])
  next
    case (Stop rest)
    then show ?thesis
      using W [of rest] by (simp add: Parse_cases [OF assms])
  next
    case (HelpAt rest)
    have "keeps a w (printed c a (?W rest))"
      using W [of rest] keeps_printed [OF len [of rest]] by (rule keeps_trans)
    with HelpAt show ?thesis
      by (simp add: Parse_cases [OF assms] snd_handle_error)
  next
    case (FailAt msg rest)
    let ?F = "Fprint (Output (flagsets w ! a)) (msg @ [CHR 0x0A]) (?W rest)"
    have F: "keeps a w ?F"
      using W [of rest] keeps_Fprint [OF len [of rest]] by (rule keeps_trans)
    then have "a < length (flagsets ?F)"
      by (simp add: keeps_def)
    then have "keeps a ?F (printed c a ?F)"
      by (rule keeps_printed)
    with F have "keeps a w (printed c a ?F)"
      by (rule keeps_trans)
    with FailAt show ?thesis
      by (simp add: Parse_cases [OF assms] snd_handle_error)
  qed
qed

lemma Parse_ErrHelp:
  assumes "flagSet c = Some a" and "a < length (flagsets w)"
    and "fs_Usage (flagsets w ! a) = Some Component_Usage"
    and "Output (flagsets w ! a) \<noteq> Buffer"
    and "Parse c a args w = (Returns (Some ErrHelp), w2)"
  shows "\<exists>rest. w2 = printed c a (update_flagset a (\<lambda>f. f\<lparr>fs_parsed := True, fs_args := rest\<rparr>) w)"
proof (cases "parse_flags (fs_formal (flagsets w ! a)) args")
  case (Seen rest)
  with assms(5) show ?thesis
    by (simp add: Parse_cases [OF assms(1-4)])
next
  case (Stop rest)
  with assms(5) show ?thesis
    by (simp add: Parse_cases [OF assms(1-4)])
next
  case (HelpAt rest)
  with assms(5) show ?thesis
    by (auto simp: Parse_cases [OF assms(1-4)] dest: handle_error_Returns)
next
  case (FailAt msg rest)
  with assms(5) show ?thesis
    by (auto simp: Parse_cases [OF assms(1-4)] dest: handle_error_Returns)
qed

text \<open>A flag-set that exits on error returns no error from \<^verbatim>\<open>Parse\<close>: it returns
  \<^verbatim>\<open>nil\<close> or ends the process.\<close>

lemma Parse_ExitOnError:
  assumes "flagSet c = Some a" and "a < length (flagsets w)"
    and "fs_Usage (flagsets w ! a) = Some Component_Usage"
    and "Output (flagsets w ! a) \<noteq> Buffer"
    and "fs_errorHandling (flagsets w ! a) = ExitOnError"
  shows "fst (Parse c a args w) = Returns None \<or> fst (Parse c a args w) = Exits"
  by (cases "parse_flags (fs_formal (flagsets w ! a)) args")
    (simp_all add: Parse_cases [OF assms(1-4)] assms(5) handle_error_def)

section \<open>Dispatch\<close>

lemma range_dispatch_find:
  "range_dispatch ctx name rest children =
     (case find (\<lambda>child. Name child = name \<and> Runnable child) children of
        None \<Rightarrow> None
      | Some child \<Rightarrow> Some (Ran (the (Run child)) ctx child rest))"
  by (induction children) auto

lemma Passthrough_after_Parse:
  assumes "FlagSet c w = (a, c1, w1)"
    and "Parse c1 a args w1 = (Returns err, w2)" and "err \<noteq> Some ErrHelp"
  shows "Passthrough ctx c args w =
    (if fs_args (flagsets w2 ! a) = [] then finish (call_Usage c1 a w2) c1
     else case find (\<lambda>child. Name child = hd (fs_args (flagsets w2 ! a)) \<and> Runnable child)
                 (Components c) of
            Some child \<Rightarrow> (Ran (the (Run child)) ctx child (tl (fs_args (flagsets w2 ! a))), c1, w2)
          | None \<Rightarrow> finish (call_Usage c1 a w2) c1)"
proof -
  have again: "FlagSet c1 w' = (a, c1, w')" for w'
    using assms(1) by (rule FlagSet_again)
  have kids: "Components c1 = Components c"
    using assms(1) by (rule FlagSet_result)
  from assms(3) have ne: "Some ErrHelp \<noteq> err" by auto
  show ?thesis
  proof (cases "fs_args (flagsets w2 ! a)")
    case Nil
    then show ?thesis
      using assms(1,2) ne by (simp add: Passthrough_def again NArg_def)
  next
    case (Cons name rest)
    then show ?thesis
      using assms(1,2) ne
      by (simp add: Passthrough_def again NArg_def Arg_def Args_def range_dispatch_find kids
          drop_Suc split: option.split)
  qed
qed

text \<open>
  With the error handling \<^verbatim>\<open>FlagSet()\<close> gives a flag-set, a help request ends the
  process inside \<^verbatim>\<open>Parse\<close>, after the usage has been printed: \<^verbatim>\<open>Passthrough\<close> does
  not get to compare the result with \<^verbatim>\<open>ErrHelp\<close>.
\<close>

lemma Passthrough_help_exits:
  assumes "wired c w" and "FlagSet c w = (a, c1, w1)"
    and "parse_flags (fs_formal (flagsets w1 ! a)) args = HelpAt rest"
    and "fs_errorHandling (flagsets w1 ! a) = ExitOnError"
  shows "fst (Passthrough ctx c args w) = Exited"
proof -
  note c1 = FlagSet_result(1) [OF assms(2)]
  note w1 = FlagSet_wired [OF assms(2,1)]
  have "fst (Parse c1 a args w1) = Exits"
    by (simp add: Parse_cases [OF c1 w1] assms(3,4) handle_error_def)
  then obtain w2 where "Parse c1 a args w1 = (Exits, w2)"
    by (cases "Parse c1 a args w1") auto
  then show ?thesis
    by (simp add: Passthrough_def assms(2))
qed

lemma Passthrough_help_state:
  assumes "wired c w" and "FlagSet c w = (a, c1, w1)"
    and "parse_flags (fs_formal (flagsets w1 ! a)) args = HelpAt rest"
    and "fs_errorHandling (flagsets w1 ! a) = ExitOnError"
  shows "Passthrough ctx c args w
    = (Exited, c1,
       printed c1 a (update_flagset a (\<lambda>f. f\<lparr>fs_parsed := True, fs_args := rest\<rparr>) w1))"
proof -
  note c1 = FlagSet_result(1) [OF assms(2)]
  note w1 = FlagSet_wired [OF assms(2,1)]
  have "Parse c1 a args w1
    = (Exits, printed c1 a (update_flagset a (\<lambda>f. f\<lparr>fs_parsed := True, fs_args := rest\<rparr>) w1))"
    by (simp add: Parse_cases [OF c1 w1] assms(3,4) handle_error_def)
  then show ?thesis
    by (simp add: Passthrough_def assms(2))
qed

section \<open>The state of a component is kept\<close>

lemma wired_fresh: "flagSet c = None \<Longrightarrow> wired c w"
  by (simp add: wired_def)

lemma wired_FlagSet:
  assumes "wired c w" and "FlagSet c w = (a, c1, w1)"
  shows "wired c1 w1"
  using FlagSet_result(1) [OF assms(2)] FlagSet_wired [OF assms(2,1)]
  by (simp add: wired_def)

lemma wired_SetOutput:
  assumes "wired c w" and "SetOutput c out w = (c1, w1)" and "out \<noteq> Some Buffer"
  shows "wired c1 w1"
proof -
  obtain a c2 w2 where f: "FlagSet c w = (a, c2, w2)"
    by (cases "FlagSet c w") auto
  with assms(2) have c1: "c1 = c2" and w1: "w1 = flag_SetOutput a out w2"
    by (simp_all add: SetOutput_def)
  note w2 = FlagSet_wired [OF f assms(1)]
  have "flagSet c1 = Some a"
    using FlagSet_result(1) [OF f] by (simp add: c1)
  then show ?thesis
    using w2 assms(3)
    by (cases out) (simp_all add: wired_def w1 flag_SetOutput_def update_flagset_def Output_def)
qed

lemma wired_printed:
  assumes "wired c w" and "flagSet c = Some a"
  shows "wired c (printed c a w)"
  using assms by (simp add: wired_def printed_def Output_def)

lemma wired_Usage:
  assumes "wired c w" and "Usage c w = (r, w1)"
  shows "wired c w1"
proof (cases "flagSet c")
  case None
  then show ?thesis
    by (simp add: wired_def)
next
  case (Some a)
  with assms(1) have "a < length (flagsets w)" "Output (flagsets w ! a) \<noteq> Buffer"
    by (simp_all add: wired_def)
  with Some have "Usage c w = (Returns (), printed c a w)"
    by (rule Usage_printed)
  with assms(2) have "w1 = printed c a w"
    by simp
  with wired_printed [OF assms(1) Some] show ?thesis
    by simp
qed

lemma wired_Passthrough:
  assumes "wired c w" and "Passthrough ctx c args w = (r, c1, w1)"
  shows "wired c1 w1"
proof -
  obtain a c' w' where f: "FlagSet c w = (a, c', w')"
    by (cases "FlagSet c w") auto
  obtain res w2 where p: "Parse c' a args w' = (res, w2)"
    by (cases "Parse c' a args w'") auto
  note c' = FlagSet_result(1) [OF f]
  note w' = FlagSet_wired [OF f assms(1)]
  have "keeps a w' (snd (Parse c' a args w'))"
    using c' w' by (rule Parse_keeps)
  then have "keeps a w' w2"
    by (simp add: p)
  then have w2: "wired c' w2"
    using c' w' by (simp add: wired_def keeps_def)
  then have len: "a < length (flagsets w2)"
    and hook: "fs_Usage (flagsets w2 ! a) = Some Component_Usage"
    and out: "Output (flagsets w2 ! a) \<noteq> Buffer"
    using c' by (simp_all add: wired_def)
  have usage: "finish (call_Usage c' a w2) c' = (Returned, c', printed c' a w2)"
    by (simp add: call_Usage_printed [OF c' len hook out] finish_def)
  have "(c1 = c' \<and> w1 = w2) \<or> (c1 = c' \<and> w1 = printed c' a w2)"
  proof (cases res)
    case Panics
    with assms(2) f p show ?thesis
      by (simp add: Passthrough_def)
  next
    case Exits
    with assms(2) f p show ?thesis
      by (simp add: Passthrough_def)
  next
    case (Returns err)
    show ?thesis
    proof (cases "err = Some ErrHelp")
      case True
      with Returns assms(2) f p show ?thesis
        by (auto simp: Passthrough_def)
    next
      case False
      from p Returns have p': "Parse c' a args w' = (Returns err, w2)"
        by simp
      from assms(2) show ?thesis
        unfolding Passthrough_after_Parse [OF f p' False] usage
        by (auto split: if_splits option.splits)
    qed
  qed
  with w2 wired_printed [OF w2 c'] show ?thesis
    by auto
qed

section \<open>The examples\<close>

lemma example_parse:
  "parse_flags [example_flag] [''-i'', ''v'', ''subcomponent2'', ''x'', ''y''] = Stop [''subcomponent2'', ''x'', ''y'']"
  by (simp add: parse_flags.simps parseOne_def split_value_def set_flag_def example_flag_def)

lemma example_parse_help:
  "parse_flags [example_flag] [''-h'', ''subcomponent2''] = HelpAt [''subcomponent2'']"
  by (simp add: parse_flags.simps parseOne_def split_value_def set_flag_def example_flag_def)

lemma example_Parse:
  "Parse example_component 0 [''-i'', ''v'', ''subcomponent2'', ''x'', ''y''] (example_world ExitOnError)
   = (Returns None, update_flagset 0 (\<lambda>f. f\<lparr>fs_parsed := True, fs_args := [''subcomponent2'', ''x'', ''y'']\<rparr>) (example_world ExitOnError))"
  by (simp add: Parse_def Let_def example_parse update_flagset_def example_world_def example_flagset_def NewFlagSet_def)

lemma example_wired: "wired example_component (example_world eh)"
  by (simp add: wired_def example_component_def example_world_def example_flagset_def
      NewFlagSet_def Output_def)

lemma example_FlagSet:
  "FlagSet example_component (example_world eh) = (0, example_component, example_world eh)"
  by (simp add: FlagSet_def example_component_def)

lemma example_defaults: "defaults_text (example_flagset eh) = example_listing"
  by (simp add: defaults_text_def example_flagset_def NewFlagSet_def flag_entry_def example_flag_def
      indent_usage_def example_listing_def)

lemma example_names:
  "Name example_child1 = ''subcomponent1''" "Name example_child2 = ''subcomponent2''"
  "Runnable example_child1" "Runnable example_child2" "Runnable example_component"
  by (simp_all add: Name_def Runnable_def example_child1_def example_child2_def
      example_component_def)

lemma example_usageTemplate:
  "usageTemplate (example_component, example_listing) = example_usage_text"
proof -
  have kids: "range_Components (Components example_component) =
      ''\<newline>  subcomponent1 description of subcomponent 1\<newline>  subcomponent2 description of subcomponent 2''"
    by (simp add: example_component_def example_names printf_left_def)
      (simp add: example_child1_def example_child2_def)
  have long: "strings_TrimSpace (Long example_component) = Long example_component"
    by (simp add: example_component_def strings_TrimSpace_def unicode_IsSpace_def)
  have ne: "example_listing \<noteq> []"
    by (simp add: example_listing_def)
  show ?thesis
    unfolding usageTemplate_def
    by (simp add: kids long ne example_names) (simp add: example_component_def example_usage_text_def)
qed

lemma example_Parse_nosuch:
  "Parse example_component 0 [''nosuch''] (example_world ExitOnError)
   = (Returns None,
      update_flagset 0 (\<lambda>f. f\<lparr>fs_parsed := True, fs_args := [''nosuch'']\<rparr>)
        (example_world ExitOnError))"
proof -
  have "parse_flags [example_flag] [''nosuch''] = Stop [''nosuch'']"
    by (simp add: parse_flags.simps parseOne_def)
  then show ?thesis
    by (simp add: Parse_def Let_def update_flagset_def example_world_def example_flagset_def
          NewFlagSet_def)
qed

lemma example_Parse_help:
  "Parse example_component 0 [''-h'', ''subcomponent2''] (example_world ContinueOnError)
   = (Returns (Some ErrHelp),
      printed example_component 0
        (update_flagset 0 (\<lambda>f. f\<lparr>fs_parsed := True, fs_args := [''subcomponent2'']\<rparr>)
           (example_world ContinueOnError)))"
proof -
  have p: "parse_flags (fs_formal (flagsets (example_world ContinueOnError) ! 0))
      [''-h'', ''subcomponent2''] = HelpAt [''subcomponent2'']"
    by (simp add: example_world_def example_flagset_def NewFlagSet_def example_parse_help)
  have w: "wired example_component (example_world ContinueOnError)"
    by (rule example_wired)
  have c: "flagSet example_component = Some 0"
    by (simp add: example_component_def)
  have eh: "fs_errorHandling (flagsets (example_world ContinueOnError) ! 0) = ContinueOnError"
    by (simp add: example_world_def example_flagset_def NewFlagSet_def)
  from w c have "0 < length (flagsets (example_world ContinueOnError))"
    and "fs_Usage (flagsets (example_world ContinueOnError) ! 0) = Some Component_Usage"
    and "Output (flagsets (example_world ContinueOnError) ! 0) \<noteq> Buffer"
    by (simp_all add: wired_def)
  from Parse_cases [OF c this] show ?thesis
    by (simp add: p eh handle_error_def)
qed

lemma example_Usage:
  "Usage example_component (example_world eh)
   = (Returns (), printed example_component 0 (example_world eh))"
  "written (printed example_component 0 (example_world eh)) (Writer 0) = example_usage_text"
proof -
  have c: "flagSet example_component = Some 0"
    by (simp add: example_component_def)
  from example_wired [of eh] c have w: "0 < length (flagsets (example_world eh))"
    "Output (flagsets (example_world eh) ! 0) \<noteq> Buffer"
    by (simp_all add: wired_def)
  show "Usage example_component (example_world eh)
   = (Returns (), printed example_component 0 (example_world eh))"
    using c w by (rule Usage_printed)
  have fs: "flagsets (example_world eh) ! 0 = example_flagset eh"
    by (simp add: example_world_def)
  have out: "Output (flagsets (example_world eh) ! 0) = Writer 0"
    by (simp add: fs Output_def example_flagset_def)
  have before: "written (example_world eh) (Writer 0) = []"
    by (simp add: example_world_def)
  from written_printed(1) [OF w(2), where c = example_component]
  show "written (printed example_component 0 (example_world eh)) (Writer 0) = example_usage_text"
    unfolding out by (simp add: before fs example_defaults example_usageTemplate)
qed

text \<open>The lines of the text \<^verbatim>\<open>Usage\<close> writes for the component of the test case
  \<^verbatim>\<open>Subcomponent\<close>, and the lines of the text the test expects.\<close>

lemma example_lines:
  "lines_of example_usage_text =
     [''Usage: test [-i input]Long usage line for the application designed to test formatting.'',
      ''The components are:'',
      [],
      ''  subcomponent1 description of subcomponent 1'',
      ''  subcomponent2 description of subcomponent 2'',
      [],
      ''The flags are:'',
      ''  -i string'',
      ''    '' @ [CHR 0x09] @ ''input of the test component'',
      []]"
  by (simp add: example_usage_text_def example_listing_def)

lemma expected_lines:
  "lines_of expected_usage_text =
     [''Usage: test [-i input]'',
      ''Long usage line for the application designed to test formatting.'',
      [],
      ''The components are:'',
      ''  subcomponent1 description of subcomponent 1'',
      ''  subcomponent2 description of subcomponent 2'',
      [],
      ''The flags are:'',
      ''  -i string'',
      ''    '' @ [CHR 0x09] @ ''input of the test component'',
      []]"
  by (simp add: expected_usage_text_def example_listing_def)

text \<open>
  On the component of the test cases \<^verbatim>\<open>Without Flags\<close> and \<^verbatim>\<open>With Flags\<close>, which has no
  long description and no child, the template renders the texts these tests expect.
\<close>

lemma example_runnable_text:
  "usageTemplate (example_runnable, []) = ''Usage: test [-i input]\<newline>''"
  "usageTemplate (example_runnable, example_listing)
     = ''Usage: test [-i input]\<newline>\<newline>The flags are:\<newline>'' @ example_listing"
  by (simp_all add: usageTemplate_def example_runnable_def Runnable_def example_listing_def)

lemma example_tool_facts:
  "flagSet example_tool = Some 0" "0 < length (flagsets example_tool_world)"
  "Output (flagsets example_tool_world ! 0) = Stderr"
  "fs_formal (flagsets example_tool_world ! 0) = []"
  "written example_tool_world = (\<lambda>out. [])"
  "Components example_tool \<noteq> []"
  by (simp_all add: example_tool_def example_tool_world_def NewFlagSet_def Output_def)

lemma example_tool_entries:
  "concat (map (\<lambda>child. [CHR 0x0A] @ ''  '' @ Name child
                  @ replicate (11 - length (Name child)) (CHR 0x20) @ '' '' @ Short child)
      (filter Runnable (Components example_tool)))
   = ''\<newline>  run         runs it\<newline>  longer-than-eleven is not cut''"
proof -
  have names: "Name (Component [] (Some 3) ''run [args]'' ''runs it'' [] None :: nat Component) = ''run''"
    "Name (Component [] (Some 4) ''longer-than-eleven'' ''is not cut'' [] None :: nat Component)
       = ''longer-than-eleven''"
    by (simp_all add: Name_def)
  show ?thesis
    by (simp add: example_tool_def Runnable_def names) (simp add: numeral_eq_Suc)
qed

lemma example_tool_text:
  "usageTemplate (example_tool, [])
   = ''\<newline>The components are:\<newline>\<newline>  run         runs it\<newline>  longer-than-eleven is not cut\<newline>''"
proof -
  have r: "\<not> Runnable example_tool" "Long example_tool = []" "Components example_tool \<noteq> []"
    by (simp_all add: example_tool_def Runnable_def)
  show ?thesis
    using example_tool_entries
    by (simp add: usageTemplate_def r range_Components_entries)
qed

text \<open>
  The dispatch scenario of the tests' component, before it has a flag-set: with the
  arguments \<^verbatim>\<open>subcomponent1 x\<close>, \<^verbatim>\<open>Passthrough\<close> creates the flag-set, parses, and runs
  the action of \<^verbatim>\<open>subcomponent1\<close> with the argument \<^verbatim>\<open>x\<close>; nothing is written.
\<close>

lemma example_scenario:
  "Passthrough (5::nat) (set_flagSet None example_component) [''subcomponent1'', ''x'']
     \<lparr>flagsets = [], written = (\<lambda>out. [])\<rparr>
   = (Ran 1 5 example_child1 [''x''],
      set_flagSet (Some 0) example_component,
      \<lparr>flagsets =
         [(NewFlagSet ''test'' ExitOnError)
            \<lparr>fs_Usage := Some Component_Usage, fs_parsed := True,
             fs_args := [''subcomponent1'', ''x'']\<rparr>],
       written = (\<lambda>out. [])\<rparr>)"
proof -
  let ?c = "set_flagSet None example_component"
  let ?w = "\<lparr>flagsets = [], written = (\<lambda>out. [])\<rparr>"
  let ?c1 = "set_flagSet (Some 0) example_component"
  let ?f = "(NewFlagSet ''test'' ExitOnError)\<lparr>fs_Usage := Some Component_Usage\<rparr>"
  let ?w1 = "\<lparr>flagsets = [?f], written = (\<lambda>out. [])\<rparr>"
  let ?w2 = "\<lparr>flagsets = [?f\<lparr>fs_parsed := True, fs_args := [''subcomponent1'', ''x'']\<rparr>],
      written = (\<lambda>out. [])\<rparr>"
  have name: "Name example_component = ''test''"
    by (simp add: Name_def example_component_def)
  have f: "FlagSet ?c ?w = (0, ?c1, ?w1)"
    by (simp add: FlagSet_def name) (simp add: set_flagSet_def)
  have "parse_flags [] [''subcomponent1'', ''x''] = Stop [''subcomponent1'', ''x'']"
    by (simp add: parse_flags.simps parseOne_def)
  then have p: "Parse ?c1 0 [''subcomponent1'', ''x''] ?w1 = (Returns None, ?w2)"
    by (simp add: Parse_def Let_def update_flagset_def NewFlagSet_def)
  have found: "find (\<lambda>child. Name child = ''subcomponent1'' \<and> Runnable child)
      (Components ?c) = Some example_child1"
    by (simp add: example_component_def example_names)
  have run: "the (Run example_child1) = 1"
    by (simp add: example_child1_def)
  show ?thesis
    using found run by (simp add: Passthrough_after_Parse [OF f p])
qed

section \<open>Dispatch to a child (C1)\<close>

text \<open>
  C1. \<^verbatim>\<open>Passthrough\<close> first takes the component's flag-set (\<^verbatim>\<open>FlagSet()\<close>) and parses the
  arguments with it. When \<^verbatim>\<open>Parse\<close> returns (and not with \<^verbatim>\<open>ErrHelp\<close>), at least one
  argument \<open>name # rest\<close> is left after the flags, and some child named \<open>name\<close> is
  runnable, \<^verbatim>\<open>Passthrough\<close> runs the action of the first such child, with the same
  context, that child and \<open>rest\<close>, and returns: the state is the one \<^verbatim>\<open>Parse\<close> left.
\<close>

theorem Passthrough_runs_child:
  assumes "FlagSet c w = (a, c1, w1)"
    and "Parse c1 a args w1 = (Returns err, w2)" and "err \<noteq> Some ErrHelp"
    and "fs_args (flagsets w2 ! a) = name # rest"
    and "\<exists>child\<in>set (Components c). Name child = name \<and> Runnable child"
  shows "\<exists>child run.
           find (\<lambda>child. Name child = name \<and> Runnable child) (Components c) = Some child
           \<and> Run child = Some run
           \<and> Passthrough ctx c args w = (Ran run ctx child rest, c1, w2)"
proof -
  from assms(5)
  have "find (\<lambda>child. Name child = name \<and> Runnable child) (Components c) \<noteq> None"
    by (auto simp: find_None_iff)
  then obtain child
    where found: "find (\<lambda>child. Name child = name \<and> Runnable child) (Components c) = Some child"
    by auto
  then have "Runnable child"
    by (auto simp: find_Some_iff)
  then obtain run where run: "Run child = Some run"
    by (cases "Run child") (auto simp: Runnable_def)
  have "Passthrough ctx c args w = (Ran run ctx child rest, c1, w2)"
    using found run assms(4) by (simp add: Passthrough_after_Parse [OF assms(1-3)])
  with found run show ?thesis by blast
qed

theorem Passthrough_runs_child_witness:
  "FlagSet example_component (example_world ExitOnError)
     = (0, example_component, example_world ExitOnError)
   \<and> fst (Parse example_component 0 [''-i'', ''v'', ''subcomponent2'', ''x'', ''y'']
             (example_world ExitOnError)) = Returns None
   \<and> fs_args (flagsets (snd (Parse example_component 0
             [''-i'', ''v'', ''subcomponent2'', ''x'', ''y''] (example_world ExitOnError))) ! 0)
       = [''subcomponent2'', ''x'', ''y'']
   \<and> (\<exists>child\<in>set (Components example_component).
         Name child = ''subcomponent2'' \<and> Runnable child)
   \<and> find (\<lambda>child. Name child = ''subcomponent2'' \<and> Runnable child)
         (Components example_component) = Some example_child2
   \<and> fst (Passthrough (5::nat) example_component
             [''-i'', ''v'', ''subcomponent2'', ''x'', ''y''] (example_world ExitOnError))
       = Ran 2 5 example_child2 [''x'', ''y'']"
proof -
  let ?args = "[''-i'', ''v'', ''subcomponent2'', ''x'', ''y'']"
  let ?w = "example_world ExitOnError"
  let ?w2 = "update_flagset 0
     (\<lambda>f. f\<lparr>fs_parsed := True, fs_args := [''subcomponent2'', ''x'', ''y'']\<rparr>) ?w"
  have h1: "FlagSet example_component ?w = (0, example_component, ?w)"
    by (simp add: FlagSet_def example_component_def)
  have h2: "Parse example_component 0 ?args ?w = (Returns None, ?w2)"
    by (rule example_Parse)
  have h3: "(None :: flag_error option) \<noteq> Some ErrHelp"
    by simp
  have h4: "fs_args (flagsets ?w2 ! 0) = ''subcomponent2'' # [''x'', ''y'']"
    by (simp add: update_flagset_def example_world_def)
  have n1: "Name example_child1 = ''subcomponent1''" and n2: "Name example_child2 = ''subcomponent2''"
    by (simp_all add: Name_def example_child1_def example_child2_def)
  have r2: "Runnable example_child2"
    by (simp add: Runnable_def example_child2_def)
  have h5: "\<exists>child\<in>set (Components example_component).
      Name child = ''subcomponent2'' \<and> Runnable child"
    using n2 r2 by (simp add: example_component_def)
  have f: "find (\<lambda>child. Name child = ''subcomponent2'' \<and> Runnable child)
      (Components example_component) = Some example_child2"
    using n1 n2 r2 by (simp add: example_component_def)
  from Passthrough_runs_child [OF h1 h2 h3 h4 h5, of 5] f
  have "\<exists>run. Run example_child2 = Some run
      \<and> Passthrough (5::nat) example_component ?args ?w = (Ran run 5 example_child2 [''x'', ''y''], example_component, ?w2)"
    by simp
  then have "fst (Passthrough (5::nat) example_component ?args ?w) = Ran 2 5 example_child2 [''x'', ''y'']"
    by (auto simp: example_child2_def)
  with h1 h2 h4 h5 f show ?thesis
    by simp
qed

section \<open>Fallback to the usage text (C3)\<close>

text \<open>
  C3. When \<^verbatim>\<open>Parse\<close> returns (and not with \<^verbatim>\<open>ErrHelp\<close>) and either no argument is left
  after the flags, or no child with the name of the first one is runnable (no child has
  the name, or those that have it are not runnable), \<^verbatim>\<open>Passthrough\<close> returns without
  running a child and without a panic, and the usage text of the component has been added
  to the flag-set's output, once; no other writer of the client is written to.
\<close>

theorem Passthrough_prints_usage:
  assumes "wired c w"
    and "FlagSet c w = (a, c1, w1)"
    and "Parse c1 a args w1 = (Returns err, w2)" and "err \<noteq> Some ErrHelp"
    and "fs_args (flagsets w2 ! a) = []
         \<or> (\<exists>name rest. fs_args (flagsets w2 ! a) = name # rest
               \<and> (\<forall>child\<in>set (Components c). Name child = name \<longrightarrow> \<not> Runnable child))"
  shows "\<exists>w3. Passthrough ctx c args w = (Returned, c1, w3)
           \<and> written w3 (Output (flagsets w2 ! a))
               = written w2 (Output (flagsets w2 ! a)) @ usageTemplate (c, defaults_text (flagsets w2 ! a))
           \<and> (\<forall>out. out \<noteq> Output (flagsets w2 ! a) \<and> out \<noteq> Buffer
                 \<longrightarrow> written w3 out = written w2 out)"
proof -
  note c1 = FlagSet_result [OF assms(2)]
  note w1 = FlagSet_wired [OF assms(2,1)]
  have "keeps a w1 (snd (Parse c1 a args w1))"
    using c1(1) w1 by (rule Parse_keeps)
  then have k: "keeps a w1 w2"
    by (simp add: assms(3))
  then have len: "a < length (flagsets w2)"
    and hook: "fs_Usage (flagsets w2 ! a) = Some Component_Usage"
    and out: "Output (flagsets w2 ! a) \<noteq> Buffer"
    using w1 by (simp_all add: keeps_def)
  have usage: "call_Usage c1 a w2 = (Returns (), printed c1 a w2)"
    using c1(1) len hook out by (rule call_Usage_printed)
  have none: "find (\<lambda>child. Name child = hd (fs_args (flagsets w2 ! a)) \<and> Runnable child)
      (Components c) = None" if "fs_args (flagsets w2 ! a) \<noteq> []"
    using that assms(5) by (auto simp: find_None_iff)
  have run: "Passthrough ctx c args w = (Returned, c1, printed c1 a w2)"
    using none by (simp add: Passthrough_after_Parse [OF assms(2-4)] usage finish_def)
  have same: "usageTemplate (c1, flags) = usageTemplate (c, flags)" for flags
    using c1(2,3,4,6) by (rule usageTemplate_cong)
  show ?thesis
    using run written_printed [OF out, where c = c1] by (auto simp: same)
qed

theorem Passthrough_prints_usage_witness:
  "wired example_component (example_world ExitOnError)
   \<and> FlagSet example_component (example_world ExitOnError)
       = (0, example_component, example_world ExitOnError)
   \<and> fst (Parse example_component 0 [''nosuch''] (example_world ExitOnError)) = Returns None
   \<and> fs_args (flagsets (snd (Parse example_component 0 [''nosuch'']
          (example_world ExitOnError))) ! 0) = [''nosuch'']
   \<and> find (\<lambda>child. Name child = ''nosuch'' \<and> Runnable child)
         (Components example_component) = None
   \<and> fst (Passthrough (5::nat) example_component [''nosuch''] (example_world ExitOnError))
       = Returned
   \<and> written (snd (snd (Passthrough (5::nat) example_component [''nosuch'']
          (example_world ExitOnError)))) (Writer 0) = example_usage_text
   \<and> written (snd (snd (Passthrough (5::nat) example_component [''nosuch'']
          (example_world ExitOnError)))) Stderr = []"
proof -
  let ?w = "example_world ExitOnError"
  let ?w2 = "update_flagset 0 (\<lambda>f. f\<lparr>fs_parsed := True, fs_args := [''nosuch'']\<rparr>) ?w"
  have h2: "Parse example_component 0 [''nosuch''] ?w = (Returns None, ?w2)"
    by (rule example_Parse_nosuch)
  have h3: "(None :: flag_error option) \<noteq> Some ErrHelp"
    by simp
  have args: "fs_args (flagsets ?w2 ! 0) = [''nosuch'']"
    by (simp add: update_flagset_def example_world_def)
  have kids: "\<forall>child\<in>set (Components example_component).
      Name child = ''nosuch'' \<longrightarrow> \<not> Runnable child"
    by (simp add: example_component_def example_names)
  have none: "find (\<lambda>child. Name child = ''nosuch'' \<and> Runnable child)
      (Components example_component) = None"
    by (simp add: example_component_def example_names)
  have h5: "fs_args (flagsets ?w2 ! 0) = []
      \<or> (\<exists>name rest. fs_args (flagsets ?w2 ! 0) = name # rest
            \<and> (\<forall>child\<in>set (Components example_component).
                  Name child = name \<longrightarrow> \<not> Runnable child))"
    using args kids by simp
  have fs: "flagsets ?w2 ! 0 = (example_flagset ExitOnError)\<lparr>fs_parsed := True, fs_args := [''nosuch'']\<rparr>"
    by (simp add: update_flagset_def example_world_def)
  have out: "Output (flagsets ?w2 ! 0) = Writer 0"
    by (simp add: fs Output_def example_flagset_def)
  have lst: "defaults_text (flagsets ?w2 ! 0) = example_listing"
    using example_defaults [of ExitOnError] by (simp add: fs defaults_text_def)
  have before: "written ?w2 = (\<lambda>out. [])"
    by (simp add: update_flagset_def example_world_def)
  from Passthrough_prints_usage [OF example_wired example_FlagSet h2 h3 h5, of 5]
  obtain w3 where
    run: "Passthrough (5::nat) example_component [''nosuch''] ?w = (Returned, example_component, w3)"
    and wr: "written w3 (Writer 0) = example_usage_text"
    and others: "\<forall>out. out \<noteq> Writer 0 \<and> out \<noteq> Buffer \<longrightarrow> written w3 out = []"
    unfolding out lst before example_usageTemplate by auto
  from others have "written w3 Stderr = []"
    by simp
  with run wr h2 args none example_wired [of ExitOnError] example_FlagSet [of ExitOnError]
  show ?thesis
    by simp
qed

section \<open>Help (C8)\<close>

text \<open>
  C8 on the component of the tests, with the argument \<^verbatim>\<open>-h\<close>. The flag-set that
  \<^verbatim>\<open>FlagSet()\<close> creates exits on error, so \<^verbatim>\<open>Parse\<close> prints the usage text (once, through
  the flag-set's \<^verbatim>\<open>Usage\<close> field) and ends the process: \<^verbatim>\<open>Passthrough\<close> does not return,
  and its comparison with \<^verbatim>\<open>ErrHelp\<close> is not reached. No child is run and nothing else is
  written. This is so for the component before it has a flag-set, and in the state the
  tests bring it to (\<^verbatim>\<open>SetOutput\<close>, one flag registered).
\<close>

theorem Passthrough_help_exits_process:
  "flagSet (set_flagSet None example_component) = None
   \<and> fst (Passthrough (5::nat) (set_flagSet None example_component) [''-h'']
        \<lparr>flagsets = [], written = (\<lambda>out. [])\<rparr>) = Exited
   \<and> written (snd (snd (Passthrough (5::nat) (set_flagSet None example_component) [''-h'']
        \<lparr>flagsets = [], written = (\<lambda>out. [])\<rparr>))) Stderr
       = ''Usage: test [-i input]Long usage line for the application designed to test formatting.\<newline>The components are:\<newline>\<newline>  subcomponent1 description of subcomponent 1\<newline>  subcomponent2 description of subcomponent 2\<newline>''
   \<and> fs_errorHandling (flagsets (example_world ExitOnError) ! 0) = ExitOnError
   \<and> fst (Passthrough (5::nat) example_component [''-h''] (example_world ExitOnError)) = Exited
   \<and> written (snd (snd (Passthrough (5::nat) example_component [''-h'']
        (example_world ExitOnError)))) (Writer 0) = example_usage_text"
proof -
  let ?c = "set_flagSet None example_component"
  let ?w = "\<lparr>flagsets = [], written = (\<lambda>out. [])\<rparr>"
  let ?f = "(NewFlagSet ''test'' ExitOnError)\<lparr>fs_Usage := Some Component_Usage\<rparr>"
  let ?w1 = "\<lparr>flagsets = [?f], written = (\<lambda>out. [])\<rparr>"
  let ?W = "\<lambda>w. update_flagset 0 (\<lambda>f. f\<lparr>fs_parsed := True, fs_args := []\<rparr>) w"
  have fresh: "flagSet ?c = None"
    by simp
  have name: "Name example_component = ''test''"
    by (simp add: Name_def example_component_def)
  have same: "set_flagSet (Some 0) example_component = example_component"
    by (simp add: set_flagSet_def example_component_def)
  have f: "FlagSet ?c ?w = (0, example_component, ?w1)"
    by (simp add: FlagSet_def name) (simp add: set_flagSet_def example_component_def)
  have h: "parse_flags formal [''-h''] = HelpAt []" if "find (\<lambda>fl. flag_Name fl = ''h'') formal = None"
    for formal
    using that by (simp add: parse_flags.simps parseOne_def split_value_def)
  have h1: "parse_flags (fs_formal (flagsets ?w1 ! 0)) [''-h''] = HelpAt []"
    by (simp add: h NewFlagSet_def)
  have e1: "fs_errorHandling (flagsets ?w1 ! 0) = ExitOnError"
    by (simp add: NewFlagSet_def)
  have run1: "Passthrough (5::nat) ?c [''-h''] ?w = (Exited, example_component, printed example_component 0 (?W ?w1))"
    using wired_fresh [OF fresh] f h1 e1 by (rule Passthrough_help_state)
  have out1: "Output (flagsets (?W ?w1) ! 0) = Stderr"
    by (simp add: update_flagset_def NewFlagSet_def Output_def)
  then have ne1: "Output (flagsets (?W ?w1) ! 0) \<noteq> Buffer"
    by simp
  have lst1: "defaults_text (flagsets (?W ?w1) ! 0) = []"
    by (simp add: update_flagset_def NewFlagSet_def defaults_text_def)
  let ?H = "''Usage: test [-i input]Long usage line for the application designed to test formatting.\<newline>The components are:\<newline>\<newline>  subcomponent1 description of subcomponent 1\<newline>  subcomponent2 description of subcomponent 2\<newline>''"
  let ?T = "[CHR 0x0A] @ ''The flags are:'' @ [CHR 0x0A] @ example_listing"
  have ne: "example_listing \<noteq> []"
    by (simp add: example_listing_def)
  have "usageTemplate (example_component, []) @ ?T = usageTemplate (example_component, example_listing)"
    using ne by (simp add: usageTemplate_flags [of example_component example_listing])
  also have "\<dots> = ?H @ ?T"
    by (simp add: example_usageTemplate example_usage_text_def)
  finally have head: "usageTemplate (example_component, []) = ?H"
    by simp
  have wr1: "written (printed example_component 0 (?W ?w1)) Stderr = usageTemplate (example_component, [])"
    using written_printed(1) [OF ne1, where c = example_component]
    unfolding out1 lst1 by (simp add: update_flagset_def)
  let ?v = "example_world ExitOnError"
  have fs: "flagsets ?v ! 0 = example_flagset ExitOnError"
    by (simp add: example_world_def)
  have h2: "parse_flags (fs_formal (flagsets ?v ! 0)) [''-h''] = HelpAt []"
    by (simp add: h fs example_flagset_def NewFlagSet_def example_flag_def)
  have e2: "fs_errorHandling (flagsets ?v ! 0) = ExitOnError"
    by (simp add: fs example_flagset_def NewFlagSet_def)
  have run2: "Passthrough (5::nat) example_component [''-h''] ?v
      = (Exited, example_component, printed example_component 0 (?W ?v))"
    using example_wired example_FlagSet h2 e2 by (rule Passthrough_help_state)
  have fs2: "flagsets (?W ?v) ! 0 = (example_flagset ExitOnError)\<lparr>fs_parsed := True, fs_args := []\<rparr>"
    by (simp add: update_flagset_def example_world_def)
  have out2: "Output (flagsets (?W ?v) ! 0) = Writer 0"
    by (simp add: fs2 Output_def example_flagset_def)
  then have ne2: "Output (flagsets (?W ?v) ! 0) \<noteq> Buffer"
    by simp
  have lst2: "defaults_text (flagsets (?W ?v) ! 0) = example_listing"
    using example_defaults [of ExitOnError] by (simp add: fs2 defaults_text_def)
  have wr2: "written (printed example_component 0 (?W ?v)) (Writer 0) = example_usage_text"
    using written_printed(1) [OF ne2, where c = example_component]
    unfolding out2 lst2 by (simp add: update_flagset_def example_world_def example_usageTemplate)
  show ?thesis
    using fresh e2 by (simp add: run1 run2 wr1 wr2 head)
qed

text \<open>
  The branch of \<^verbatim>\<open>Passthrough\<close> for \<^verbatim>\<open>ErrHelp\<close> does what it is written for where it is
  reached, which takes a flag-set that the client has set to continue on error: when
  \<^verbatim>\<open>Parse\<close> returns \<^verbatim>\<open>ErrHelp\<close>, \<^verbatim>\<open>Passthrough\<close> returns at once, no child is run, and
  the state is the one \<^verbatim>\<open>Parse\<close> left, in which the usage text has been written once.
\<close>

lemma Passthrough_help_returns:
  assumes "FlagSet c w = (a, c1, w1)"
    and "Parse c1 a args w1 = (Returns (Some ErrHelp), w2)"
  shows "Passthrough ctx c args w = (Returned, c1, w2)
         \<and> (wired c w \<longrightarrow>
              written w2 (Output (flagsets w1 ! a))
                = written w (Output (flagsets w1 ! a)) @ usageTemplate (c, defaults_text (flagsets w1 ! a))
              \<and> (\<forall>out. out \<noteq> Output (flagsets w1 ! a) \<and> out \<noteq> Buffer
                    \<longrightarrow> written w2 out = written w out))"
proof -
  have ret: "Passthrough ctx c args w = (Returned, c1, w2)"
    using assms by (simp add: Passthrough_def)
  note c1 = FlagSet_result [OF assms(1)]
  have "written w2 (Output (flagsets w1 ! a))
          = written w (Output (flagsets w1 ! a)) @ usageTemplate (c, defaults_text (flagsets w1 ! a))
        \<and> (\<forall>out. out \<noteq> Output (flagsets w1 ! a) \<and> out \<noteq> Buffer
              \<longrightarrow> written w2 out = written w out)" if "wired c w"
  proof -
    note w1 = FlagSet_wired [OF assms(1) that]
    let ?W = "\<lambda>rest. update_flagset a (\<lambda>f. f\<lparr>fs_parsed := True, fs_args := rest\<rparr>) w1"
    have W: "keeps a w1 (?W rest)" for rest
      using w1(1) by (rule keeps_args)
    have Wwritten: "written (?W rest) = written w" for rest
      by (simp add: update_flagset_def c1(7))
    from Parse_ErrHelp [OF c1(1) w1 assms(2)]
    obtain rest where w2: "w2 = printed c1 a (?W rest)"
      by blast
    have out: "Output (flagsets (?W rest) ! a) = Output (flagsets w1 ! a)"
      and lst: "defaults_text (flagsets (?W rest) ! a) = defaults_text (flagsets w1 ! a)"
      using W [of rest] by (simp_all add: keeps_def defaults_text_def)
    have ne: "Output (flagsets (?W rest) ! a) \<noteq> Buffer"
      using out w1(3) by simp
    have same: "usageTemplate (c1, flags) = usageTemplate (c, flags)" for flags
      using c1(2,3,4,6) by (rule usageTemplate_cong)
    show ?thesis
      using written_printed [OF ne, where c = c1] unfolding w2 out lst Wwritten same
      by blast
  qed
  with ret show ?thesis by blast
qed

lemma Passthrough_help_returns_example:
  "FlagSet example_component (example_world ContinueOnError)
     = (0, example_component, example_world ContinueOnError)
   \<and> fst (Parse example_component 0 [''-h'', ''subcomponent2''] (example_world ContinueOnError))
       = Returns (Some ErrHelp)
   \<and> wired example_component (example_world ContinueOnError)
   \<and> Passthrough (5::nat) example_component [''-h'', ''subcomponent2'']
         (example_world ContinueOnError)
       = (Returned, example_component,
          snd (Parse example_component 0 [''-h'', ''subcomponent2'']
                 (example_world ContinueOnError)))
   \<and> written (snd (snd (Passthrough (5::nat) example_component [''-h'', ''subcomponent2'']
          (example_world ContinueOnError)))) (Writer 0) = example_usage_text
   \<and> written (snd (snd (Passthrough (5::nat) example_component [''-h'', ''subcomponent2'']
          (example_world ContinueOnError)))) Stderr = []"
proof -
  let ?w = "example_world ContinueOnError"
  let ?args = "[''-h'', ''subcomponent2'']"
  let ?w2 = "printed example_component 0
      (update_flagset 0 (\<lambda>f. f\<lparr>fs_parsed := True, fs_args := [''subcomponent2'']\<rparr>) ?w)"
  have h2: "Parse example_component 0 ?args ?w = (Returns (Some ErrHelp), ?w2)"
    by (rule example_Parse_help)
  have fs: "flagsets ?w ! 0 = example_flagset ContinueOnError"
    by (simp add: example_world_def)
  have out: "Output (flagsets ?w ! 0) = Writer 0"
    by (simp add: fs Output_def example_flagset_def)
  have lst: "defaults_text (flagsets ?w ! 0) = example_listing"
    by (simp add: fs example_defaults)
  have before: "written ?w = (\<lambda>out. [])"
    by (simp add: example_world_def)
  from Passthrough_help_returns [OF example_FlagSet h2, of 5] example_wired [of ContinueOnError]
  have run: "Passthrough (5::nat) example_component ?args ?w = (Returned, example_component, ?w2)"
    and wr: "written ?w2 (Writer 0) = example_usage_text"
    and others: "\<forall>out. out \<noteq> Writer 0 \<and> out \<noteq> Buffer \<longrightarrow> written ?w2 out = []"
    unfolding out lst before example_usageTemplate by auto
  from others have "written ?w2 Stderr = []"
    by simp
  with run wr h2 example_wired [of ContinueOnError] example_FlagSet [of ContinueOnError]
  show ?thesis
    by simp
qed

section \<open>The flag-set is created once (C9)\<close>

text \<open>
  C9. On a component without flag-set, \<^verbatim>\<open>FlagSet()\<close> adds one flag-set to the store, at
  a new address: it has the component's name and no flag, exits on error, and its
  \<^verbatim>\<open>Usage\<close> field, when called, runs the component's \<^verbatim>\<open>Usage\<close>. Every later call, in any
  state, returns the same address and changes neither the component nor the state.
\<close>

theorem FlagSet_created_once:
  assumes "flagSet c = None" and "FlagSet c w = (a, c1, w1)"
  shows "a = length (flagsets w)
         \<and> flagsets w1 = flagsets w @ [flagsets w1 ! a]
         \<and> fs_name (flagsets w1 ! a) = Name c
         \<and> fs_errorHandling (flagsets w1 ! a) = ExitOnError
         \<and> fs_formal (flagsets w1 ! a) = []
         \<and> fs_Usage (flagsets w1 ! a) = Some Component_Usage
         \<and> call_Usage c1 a w1 = Usage c1 w1
         \<and> flagSet c1 = Some a
         \<and> (\<forall>w'. FlagSet c1 w' = (a, c1, w'))"
proof -
  from assms have a: "a = length (flagsets w)"
    and c1: "c1 = set_flagSet (Some a) c"
    and w1: "w1 = w\<lparr>flagsets := flagsets w
        @ [(NewFlagSet (Name c) ExitOnError)\<lparr>fs_Usage := Some Component_Usage\<rparr>]\<rparr>"
    by (auto simp: FlagSet_None)
  have new: "flagsets w1 ! a = (NewFlagSet (Name c) ExitOnError)\<lparr>fs_Usage := Some Component_Usage\<rparr>"
    by (simp add: a w1)
  have again: "FlagSet c1 w' = (a, c1, w')" for w'
    using assms(2) by (rule FlagSet_again)
  have fields: "fs_name (flagsets w1 ! a) = Name c"
    "fs_errorHandling (flagsets w1 ! a) = ExitOnError"
    "fs_formal (flagsets w1 ! a) = []"
    "fs_Usage (flagsets w1 ! a) = Some Component_Usage"
    by (simp_all add: new NewFlagSet_def)
  have hook: "call_Usage c1 a w1 = Usage c1 w1"
    by (simp add: call_Usage_def fields)
  have store: "flagsets w1 = flagsets w @ [flagsets w1 ! a]"
    by (simp add: new) (simp add: w1)
  have field: "flagSet c1 = Some a"
    by (simp add: c1)
  from a store fields hook field again show ?thesis
    by blast
qed

theorem FlagSet_created_once_witness:
  "flagSet example_child1 = None
   \<and> FlagSet example_child1 (example_world ExitOnError)
       = (1, set_flagSet (Some 1) example_child1,
          (example_world ExitOnError)\<lparr>flagsets :=
             [example_flagset ExitOnError,
              (NewFlagSet ''subcomponent1'' ExitOnError)\<lparr>fs_Usage := Some Component_Usage\<rparr>]\<rparr>)
   \<and> FlagSet (set_flagSet (Some 1) example_child1) (example_world ExitOnError)
       = (1, set_flagSet (Some 1) example_child1, example_world ExitOnError)"
proof -
  let ?c1 = "set_flagSet (Some 1) example_child1"
  let ?w1 = "(example_world ExitOnError)\<lparr>flagsets :=
             [example_flagset ExitOnError,
              (NewFlagSet ''subcomponent1'' ExitOnError)\<lparr>fs_Usage := Some Component_Usage\<rparr>]\<rparr>"
  have h1: "flagSet example_child1 = None"
    by (simp add: example_child1_def)
  have h2: "FlagSet example_child1 (example_world ExitOnError) = (1, ?c1, ?w1)"
    by (simp add: FlagSet_None [OF h1] example_names) (simp add: example_world_def)
  from FlagSet_created_once [OF h1 h2]
  have "FlagSet ?c1 (example_world ExitOnError) = (1, ?c1, example_world ExitOnError)"
    by blast
  with h1 h2 show ?thesis
    by simp
qed

section \<open>Usage before the flag-set exists (C10)\<close>

text \<open>
  C10. \<^verbatim>\<open>Usage\<close> on a component whose flag-set is \<^verbatim>\<open>nil\<close> panics and leaves the state
  as it is: it creates no flag-set. Once \<^verbatim>\<open>FlagSet()\<close> has been called (directly, or by
  \<^verbatim>\<open>SetOutput\<close>), \<^verbatim>\<open>Usage\<close> on the component returns, in any later state.
\<close>

theorem Usage_needs_FlagSet:
  "(flagSet c = None \<longrightarrow> Usage c w = (Panics, w))
   \<and> (\<forall>a c1 w1 w'. FlagSet c w = (a, c1, w1) \<longrightarrow> fst (Usage c1 w') = Returns ())
   \<and> (\<forall>out c1 w1 w'. SetOutput c out w = (c1, w1) \<longrightarrow> fst (Usage c1 w') = Returns ())"
proof -
  have nil: "Usage c w = (Panics, w)" if "flagSet c = None"
    using that by (simp add: Usage_def)
  have some: "fst (Usage c1 w') = Returns ()" if "flagSet c1 = Some a" for c1 :: "'a Component" and a w'
    using that by (simp add: Usage_def Let_def)
  have after: "fst (Usage c1 w') = Returns ()" if "FlagSet c w = (a, c1, w1)" for a c1 w1 w'
    using some FlagSet_result(1) [OF that] by blast
  have setout: "fst (Usage c1 w') = Returns ()" if "SetOutput c out w = (c1, w1)" for out c1 w1 w'
  proof -
    obtain a c2 w2 where f: "FlagSet c w = (a, c2, w2)"
      by (cases "FlagSet c w") auto
    with that have "c1 = c2"
      by (simp add: SetOutput_def)
    with after [OF f] show ?thesis
      by simp
  qed
  from nil after setout show ?thesis
    by blast
qed

theorem Usage_needs_FlagSet_witness:
  "flagSet example_child1 = None
   \<and> Usage example_child1 (example_world ExitOnError) = (Panics, example_world ExitOnError)
   \<and> FlagSet example_child1 (example_world ExitOnError)
       = (1, set_flagSet (Some 1) example_child1,
          (example_world ExitOnError)\<lparr>flagsets :=
             [example_flagset ExitOnError,
              (NewFlagSet ''subcomponent1'' ExitOnError)\<lparr>fs_Usage := Some Component_Usage\<rparr>]\<rparr>)
   \<and> fst (Usage (set_flagSet (Some 1) example_child1)
         ((example_world ExitOnError)\<lparr>flagsets :=
             [example_flagset ExitOnError,
              (NewFlagSet ''subcomponent1'' ExitOnError)\<lparr>fs_Usage := Some Component_Usage\<rparr>]\<rparr>))
       = Returns ()
   \<and> fst (SetOutput example_child1 (Some (Writer 1)) (example_world ExitOnError))
       = set_flagSet (Some 1) example_child1
   \<and> fst (Usage (fst (SetOutput example_child1 (Some (Writer 1)) (example_world ExitOnError)))
         (snd (SetOutput example_child1 (Some (Writer 1)) (example_world ExitOnError))))
       = Returns ()"
proof -
  let ?w = "example_world ExitOnError"
  let ?c1 = "set_flagSet (Some 1) example_child1"
  let ?w1 = "?w\<lparr>flagsets :=
             [example_flagset ExitOnError,
              (NewFlagSet ''subcomponent1'' ExitOnError)\<lparr>fs_Usage := Some Component_Usage\<rparr>]\<rparr>"
  have h1: "flagSet example_child1 = None"
    by (simp add: example_child1_def)
  have h2: "FlagSet example_child1 ?w = (1, ?c1, ?w1)"
    by (simp add: FlagSet_None [OF h1] example_names) (simp add: example_world_def)
  obtain w2 where h3: "SetOutput example_child1 (Some (Writer 1)) ?w = (?c1, w2)"
    by (simp add: SetOutput_def h2)
  note u = Usage_needs_FlagSet [of example_child1 ?w]
  from u h1 have p: "Usage example_child1 ?w = (Panics, ?w)"
    by blast
  from u h2 have r: "fst (Usage ?c1 ?w1) = Returns ()"
    by blast
  from u h3 have s: "fst (Usage ?c1 w2) = Returns ()"
    by blast
  from h1 p h2 r s h3 show ?thesis
    by simp
qed

section \<open>The flags block (C4)\<close>

text \<open>
  C4. \<^verbatim>\<open>Usage\<close> on a component with a flag-set returns. The listing \<^verbatim>\<open>PrintDefaults\<close>
  writes is empty exactly when no flag is registered, and \<^verbatim>\<open>Usage\<close> has it written into
  its buffer. What the flag-set's output receives is one text, added once: the text for
  the same component without the flags block and then, only when a flag is registered, a
  line break, the header \<^verbatim>\<open>The flags are:\<close>, a line break and the listing. No other
  writer of the client is written to, and the flag-set's output is again the one that was
  in use.
\<close>

theorem Usage_flags_block:
  assumes "flagSet c = Some a" and "a < length (flagsets w)"
    and "Output (flagsets w ! a) \<noteq> Buffer"
  shows "\<exists>w'. Usage c w = (Returns (), w')
           \<and> PrintDefaults a w
               = Fprint (Output (flagsets w ! a)) (defaults_text (flagsets w ! a)) w
           \<and> (defaults_text (flagsets w ! a) = [] \<longleftrightarrow> fs_formal (flagsets w ! a) = [])
           \<and> written w' Buffer = defaults_text (flagsets w ! a)
           \<and> written w' (Output (flagsets w ! a))
               = written w (Output (flagsets w ! a)) @ usageTemplate (c, [])
                 @ (if fs_formal (flagsets w ! a) = [] then []
                    else [CHR 0x0A] @ ''The flags are:'' @ [CHR 0x0A]
                         @ defaults_text (flagsets w ! a))
           \<and> (\<forall>out. out \<noteq> Output (flagsets w ! a) \<and> out \<noteq> Buffer
                 \<longrightarrow> written w' out = written w out)
           \<and> Output (flagsets w' ! a) = Output (flagsets w ! a)"
proof -
  let ?f = "flagsets w ! a"
  have run: "Usage c w = (Returns (), printed c a w)"
    using assms by (rule Usage_printed)
  have pd: "PrintDefaults a w = Fprint (Output ?f) (defaults_text ?f) w"
    by (simp add: PrintDefaults_eq defaults_text_def)
  have buf: "written (printed c a w) Buffer = defaults_text ?f"
    using assms(3) by (simp add: printed_def)
  have tx: "usageTemplate (c, defaults_text ?f) =
      usageTemplate (c, []) @ (if fs_formal ?f = [] then []
         else [CHR 0x0A] @ ''The flags are:'' @ [CHR 0x0A] @ defaults_text ?f)"
    by (simp add: usageTemplate_flags [of c "defaults_text ?f"] defaults_text_Nil)
  have out: "Output (flagsets (printed c a w) ! a) = Output ?f"
    using assms(2) by (simp add: printed_def Output_def)
  show ?thesis
    using run pd buf out written_printed [OF assms(3), where c = c] defaults_text_Nil [of ?f]
    unfolding tx by auto
qed

theorem Usage_flags_block_witness:
  "flagSet example_component = Some 0
   \<and> 0 < length (flagsets (example_world ExitOnError))
   \<and> Output (flagsets (example_world ExitOnError) ! 0) = Writer 0
   \<and> fs_formal (flagsets (example_world ExitOnError) ! 0) = [example_flag]
   \<and> defaults_text (flagsets (example_world ExitOnError) ! 0) = example_listing
   \<and> fst (Usage example_component (example_world ExitOnError)) = Returns ()
   \<and> written (snd (Usage example_component (example_world ExitOnError))) (Writer 0)
       = usageTemplate (example_component, [])
         @ [CHR 0x0A] @ ''The flags are:'' @ [CHR 0x0A] @ example_listing
   \<and> written (snd (Usage example_component (example_world ExitOnError))) Buffer = example_listing
   \<and> written (snd (Usage example_component (example_world ExitOnError))) Stderr = []
   \<and> flagSet example_tool = Some 0
   \<and> fs_formal (flagsets example_tool_world ! 0) = []
   \<and> written (snd (Usage example_tool example_tool_world)) Stderr
       = usageTemplate (example_tool, [])"
proof -
  let ?w = "example_world ExitOnError"
  have c: "flagSet example_component = Some 0"
    by (simp add: example_component_def)
  have fs: "flagsets ?w ! 0 = example_flagset ExitOnError"
    by (simp add: example_world_def)
  have len: "0 < length (flagsets ?w)"
    by (simp add: example_world_def)
  have out: "Output (flagsets ?w ! 0) = Writer 0"
    by (simp add: fs Output_def example_flagset_def)
  then have ne: "Output (flagsets ?w ! 0) \<noteq> Buffer"
    by simp
  have formal: "fs_formal (flagsets ?w ! 0) = [example_flag]"
    by (simp add: fs example_flagset_def NewFlagSet_def)
  have lst: "defaults_text (flagsets ?w ! 0) = example_listing"
    by (simp add: fs example_defaults)
  have before: "written ?w = (\<lambda>out. [])"
    by (simp add: example_world_def)
  from Usage_flags_block [OF c len ne] obtain w' where
    run: "Usage example_component ?w = (Returns (), w')"
    and buf: "written w' Buffer = example_listing"
    and wr: "written w' (Writer 0) = usageTemplate (example_component, [])
         @ [CHR 0x0A] @ ''The flags are:'' @ [CHR 0x0A] @ example_listing"
    and others: "\<forall>out. out \<noteq> Writer 0 \<and> out \<noteq> Buffer \<longrightarrow> written w' out = []"
    unfolding out lst formal before by auto
  from others have err: "written w' Stderr = []"
    by simp
  have ne2: "Output (flagsets example_tool_world ! 0) \<noteq> Buffer"
    by (simp add: example_tool_facts)
  from Usage_flags_block [OF example_tool_facts(1,2) ne2] obtain w'' where
    run2: "Usage example_tool example_tool_world = (Returns (), w'')"
    and wr2: "written w'' Stderr = usageTemplate (example_tool, [])"
    unfolding example_tool_facts by auto
  from c len out formal lst run buf wr err run2 wr2 example_tool_facts(1,4) show ?thesis
    by simp
qed

section \<open>The components block (C6)\<close>

text \<open>
  C6, as stated, fails on the component of the test: the claim's line for the first
  child, its name filled up to 11 characters, a space and its short description, is not a
  line of the usage text; the line there starts with two spaces.
\<close>

theorem components_entry_counterexample:
  "Components example_component \<noteq> []
   \<and> Runnable example_child1
   \<and> example_child1 \<in> set (Components example_component)
   \<and> written (snd (Usage example_component (example_world ExitOnError))) (Writer 0)
       = example_usage_text
   \<and> printf_left 11 (Name example_child1) @ '' '' @ Short example_child1
       = ''subcomponent1 description of subcomponent 1''
   \<and> ''subcomponent1 description of subcomponent 1'' \<notin> set (lines_of example_usage_text)
   \<and> ''  subcomponent1 description of subcomponent 1'' \<in> set (lines_of example_usage_text)"
proof -
  have line: "printf_left 11 (Name example_child1) @ '' '' @ Short example_child1
      = ''subcomponent1 description of subcomponent 1''"
    by (simp add: example_names printf_left_def) (simp add: example_child1_def)
  have kids: "Components example_component \<noteq> []"
    "example_child1 \<in> set (Components example_component)"
    by (simp_all add: example_component_def)
  show ?thesis
    using line kids by (simp add: example_Usage example_lines example_names)
qed

text \<open>
  C6, as amended. For a component with children, the text \<^verbatim>\<open>Usage\<close> writes holds the
  header \<^verbatim>\<open>The components are:\<close> and, after it, one entry per runnable child, in the order
  of the children: each entry starts a new line and is two spaces, the child's name
  filled with spaces up to 11 characters, one space and the child's short description.
  A child that is not runnable has no entry. After the entries come a line break and the
  flags block.
\<close>

theorem Usage_components_block:
  assumes "flagSet c = Some a" and "a < length (flagsets w)"
    and "Output (flagsets w ! a) \<noteq> Buffer"
    and "Components c \<noteq> []"
  shows "\<exists>w' pre. Usage c w = (Returns (), w')
           \<and> written w' (Output (flagsets w ! a))
               = written w (Output (flagsets w ! a)) @ pre
                 @ ''The components are:'' @ [CHR 0x0A]
                 @ concat (map (\<lambda>child. [CHR 0x0A] @ ''  '' @ Name child
                                   @ replicate (11 - length (Name child)) (CHR 0x20)
                                   @ '' '' @ Short child)
                     (filter Runnable (Components c)))
                 @ [CHR 0x0A]
                 @ (if fs_formal (flagsets w ! a) = [] then []
                    else [CHR 0x0A] @ ''The flags are:'' @ [CHR 0x0A]
                         @ defaults_text (flagsets w ! a))"
proof -
  let ?f = "flagsets w ! a"
  let ?pre = "(if Runnable c then ''Usage: '' @ UsageLine c else [])
      @ (if length (Long c) \<noteq> 0 then strings_TrimSpace (Long c) else []) @ [CHR 0x0A]"
  have run: "Usage c w = (Returns (), printed c a w)"
    using assms(1-3) by (rule Usage_printed)
  have tx: "usageTemplate (c, defaults_text ?f) =
      ?pre @ ''The components are:'' @ [CHR 0x0A] @ range_Components (Components c) @ [CHR 0x0A]
      @ (if fs_formal ?f = [] then []
         else [CHR 0x0A] @ ''The flags are:'' @ [CHR 0x0A] @ defaults_text ?f)"
    using assms(4) by (simp add: usageTemplate_def defaults_text_Nil)
  have "written (printed c a w) (Output ?f) = written w (Output ?f) @ ?pre
      @ ''The components are:'' @ [CHR 0x0A] @ range_Components (Components c) @ [CHR 0x0A]
      @ (if fs_formal ?f = [] then []
         else [CHR 0x0A] @ ''The flags are:'' @ [CHR 0x0A] @ defaults_text ?f)"
    using written_printed(1) [OF assms(3), where c = c] unfolding tx by simp
  with run show ?thesis
    unfolding range_Components_entries by blast
qed

theorem Usage_components_block_witness:
  "flagSet example_tool = Some 0
   \<and> 0 < length (flagsets example_tool_world)
   \<and> Output (flagsets example_tool_world ! 0) = Stderr
   \<and> Components example_tool \<noteq> []
   \<and> fst (Usage example_tool example_tool_world) = Returns ()
   \<and> (\<exists>pre. written (snd (Usage example_tool example_tool_world)) Stderr
         = pre @ ''The components are:\<newline>\<newline>  run         runs it\<newline>  longer-than-eleven is not cut\<newline>'')
   \<and> written (snd (Usage example_tool example_tool_world)) Stderr
       = ''\<newline>The components are:\<newline>\<newline>  run         runs it\<newline>  longer-than-eleven is not cut\<newline>''"
proof -
  have ne: "Output (flagsets example_tool_world ! 0) \<noteq> Buffer"
    by (simp add: example_tool_facts)
  from Usage_components_block [OF example_tool_facts(1,2) ne example_tool_facts(6)]
  obtain w' pre where run: "Usage example_tool example_tool_world = (Returns (), w')"
    and wr: "written w' Stderr
      = pre @ ''The components are:\<newline>\<newline>  run         runs it\<newline>  longer-than-eleven is not cut\<newline>''"
    unfolding example_tool_facts example_tool_entries by auto
  have "Usage example_tool example_tool_world = (Returns (), printed example_tool 0 example_tool_world)"
    using example_tool_facts(1,2) ne by (rule Usage_printed)
  with run have w': "w' = printed example_tool 0 example_tool_world"
    by simp
  have exact: "written w' Stderr
      = ''\<newline>The components are:\<newline>\<newline>  run         runs it\<newline>  longer-than-eleven is not cut\<newline>''"
    unfolding w' using written_printed(1) [OF ne, where c = example_tool]
    by (simp add: example_tool_facts defaults_text_def example_tool_text)
  from run wr exact example_tool_facts show ?thesis
    by auto
qed

section \<open>The layout of the blocks (C2, C5)\<close>

text \<open>
  C2 on the component of the test. The usage line and the long description are written
  with nothing between them, one line break (no blank line) separates the long description
  from the components block, and a blank line follows the header of the components block;
  the text is not the one the test expects.
\<close>

theorem Usage_blocks_run_together:
  "written (snd (Usage example_component (example_world ExitOnError))) (Writer 0)
     = example_usage_text
   \<and> lines_of example_usage_text =
     [''Usage: test [-i input]Long usage line for the application designed to test formatting.'',
      ''The components are:'',
      [],
      ''  subcomponent1 description of subcomponent 1'',
      ''  subcomponent2 description of subcomponent 2'',
      [],
      ''The flags are:'',
      ''  -i string'',
      ''    '' @ [CHR 0x09] @ ''input of the test component'',
      []]
   \<and> example_usage_text \<noteq> expected_usage_text"
proof -
  have "lines_of example_usage_text \<noteq> lines_of expected_usage_text"
    unfolding example_lines expected_lines by simp
  then have "example_usage_text \<noteq> expected_usage_text"
    by auto
  then show ?thesis
    by (simp add: example_Usage example_lines)
qed

text \<open>
  The usage line is there for a runnable component only: the text starts with
  \<^verbatim>\<open>Usage: \<close> and the usage line when the component is runnable, and what follows, which
  is the whole text when the component is not runnable, does not depend on the usage line.
\<close>

lemma usageTemplate_usage_line:
  "usageTemplate (c, flags) =
     (if Runnable c then ''Usage: '' @ UsageLine c else [])
     @ usageTemplate (Component (Components c) None u (Short c) (Long c) (flagSet c), flags)"
  by (simp add: usageTemplate_def Runnable_def)

text \<open>
  C5 on the component of the test, which is runnable and has a long description: the
  first line of the usage text is the usage line with the long description appended, and
  \<^verbatim>\<open>Usage: test [-i input]\<close> is not a line of the text, where the test expects it as the
  first line.
\<close>

theorem Usage_line_not_a_line:
  "Runnable example_component
   \<and> UsageLine example_component = ''test [-i input]''
   \<and> written (snd (Usage example_component (example_world ExitOnError))) (Writer 0)
       = example_usage_text
   \<and> hd (lines_of example_usage_text)
       = ''Usage: test [-i input]Long usage line for the application designed to test formatting.''
   \<and> ''Usage: test [-i input]'' \<notin> set (lines_of example_usage_text)
   \<and> hd (lines_of expected_usage_text) = ''Usage: test [-i input]''"
  by (simp add: example_Usage example_lines expected_lines example_names)
    (simp add: example_component_def)

end
